theory Spec2Isabelle
  imports Main "HOL-Library.Sublist"
begin

section \<open>The world of the script\<close>

text \<open>
  \<^verbatim>\<open>redzer_automate.py\<close> is a scaffolding script: it reads a YAML configuration, destroys
  and recreates a project directory, writes three template files, copies each to the
  project root and runs five external commands through the shell. Everything it does is
  an effect on the file system, on the log or on a child process, so the embedding
  threads a record of that world through every function, and every exception the
  source can raise is a value of the type \<open>error\<close>.

  The model fixes the POSIX flavour of \<^verbatim>\<open>pathlib\<close> and of text-mode files. A path is the
  list of its \<^verbatim>\<open>parts\<close>; the file system maps paths to nodes and tells two paths apart
  by their parts alone (it resolves no \<^verbatim>\<open>..\<close> part and no symbolic link, and it keeps
  the relative paths, which hang below the current directory \<open>[]\<close>, apart from the
  absolute ones). Every operation is permitted by the operating system: the only
  \<^verbatim>\<open>OSError\<close>s are those that follow from what exists and what does not.
\<close>

subsection \<open>Paths (pathlib, POSIX flavour)\<close>

type_synonym path = "string list"

fun split_on :: "char \<Rightarrow> string \<Rightarrow> string list" where
  "split_on sep [] = [[]]"
| "split_on sep (c # cs) =
     (if c = sep then [] # split_on sep cs
      else (case split_on sep cs of w # ws \<Rightarrow> (c # w) # ws | [] \<Rightarrow> [[c]]))"

text \<open>The root of a path string: \<^verbatim>\<open>/\<close>, or \<^verbatim>\<open>//\<close> for exactly two leading slashes.\<close>

definition root_of :: "string \<Rightarrow> string" where
  "root_of s =
     (if take 2 s = ''//'' \<and> take 3 s \<noteq> ''///'' then ''//''
      else if take 1 s = ''/'' then ''/''
      else [])"

text \<open>\<^verbatim>\<open>Path(s)\<close>: the root if there is one, then the components that are neither empty
  nor \<^verbatim>\<open>.\<close> (so \<^verbatim>\<open>a//b/./c/\<close> has the parts \<^verbatim>\<open>a\<close>, \<^verbatim>\<open>b\<close>, \<^verbatim>\<open>c\<close>; a \<^verbatim>\<open>..\<close> is kept).\<close>

definition Path :: "string \<Rightarrow> path" where
  "Path s = (if root_of s = [] then [] else [root_of s]) @
            filter (\<lambda>w. w \<noteq> [] \<and> w \<noteq> ''.'') (split_on (CHR ''/'') s)"

definition is_absolute :: "path \<Rightarrow> bool" where
  "is_absolute p = (case p of [] \<Rightarrow> False | r # _ \<Rightarrow> r = ''/'' \<or> r = ''//'')"

text \<open>\<^verbatim>\<open>p / s\<close>: an absolute right operand replaces the left one.\<close>

definition joinpath :: "path \<Rightarrow> string \<Rightarrow> path" where
  "joinpath p s = (let q = Path s in if is_absolute q then q else p @ q)"

fun intercalate :: "string \<Rightarrow> string list \<Rightarrow> string" where
  "intercalate sep [] = []"
| "intercalate sep [w] = w"
| "intercalate sep (w # ws) = w @ sep @ intercalate sep ws"

text \<open>\<^verbatim>\<open>str(p)\<close>, which is what an f-string writes for a path.\<close>

definition str_path :: "path \<Rightarrow> string" where
  "str_path p =
     (if p = [] then ''.''
      else if is_absolute p then hd p @ intercalate ''/'' (tl p)
      else intercalate ''/'' p)"

text \<open>The current directory and the roots are their own parents.\<close>

definition anchor :: "path \<Rightarrow> bool" where
  "anchor p = (p = [] \<or> p = [''/''] \<or> p = [''//''])"

definition parent :: "path \<Rightarrow> path" where
  "parent p = (if anchor p then p else butlast p)"

subsection \<open>File system, log, child processes\<close>

datatype node = File string | Dir

type_synonym filesystem = "path \<Rightarrow> node option"

datatype level = INFO | ERROR

datatype error =
    SystemExit int
  | KeyError string
  | TypeError
  | YAMLError
  | UnicodeDecodeError
  | FileNotFoundError path
  | FileExistsError path
  | NotADirectoryError path
  | IsADirectoryError path
  | OSError path

type_synonym environment = "string \<Rightarrow> string option"

text \<open>What \<^verbatim>\<open>subprocess.run\<close> learns of a child that has exited; the streams are bytes.\<close>

record completed =
  returncode :: int
  stdout :: string
  stderr :: string

text \<open>
  The shell is a parameter of the model: given the command line, the environment of the
  child and the file system, it says how the child exits and what it leaves on disk.
  The model covers the runs in which every child exits.
\<close>

type_synonym shell = "string \<Rightarrow> environment \<Rightarrow> filesystem \<Rightarrow> completed \<times> filesystem"

text \<open>
  \<open>calls\<close> is the trace of the calls of \<^verbatim>\<open>subprocess.run\<close>, the command line and the
  \<^verbatim>\<open>env\<close> argument of each, in the order they were made.
\<close>

record world =
  disk :: filesystem
  environ :: environment
  log :: "(level \<times> string) list"
  calls :: "(string \<times> environment option) list"

type_synonym 'a io = "world \<Rightarrow> (error + 'a) \<times> world"

definition return :: "'a \<Rightarrow> 'a io" where
  "return x s = (Inr x, s)"

definition raise :: "error \<Rightarrow> 'a io" where
  "raise e s = (Inl e, s)"

text \<open>Sequencing: an exception ends the rest, and the world keeps what was done before.\<close>

definition bind_io :: "'a io \<Rightarrow> ('a \<Rightarrow> 'b io) \<Rightarrow> 'b io" where
  "bind_io m f s = (case m s of (Inl e, s') \<Rightarrow> (Inl e, s') | (Inr x, s') \<Rightarrow> f x s')"

definition lift :: "error + 'a \<Rightarrow> 'a io" where
  "lift r s = (r, s)"

definition logging_info :: "string \<Rightarrow> unit io" where
  "logging_info msg s = (Inr (), s\<lparr>log := log s @ [(INFO, msg)]\<rparr>)"

definition logging_error :: "string \<Rightarrow> unit io" where
  "logging_error msg s = (Inr (), s\<lparr>log := log s @ [(ERROR, msg)]\<rparr>)"

subsection \<open>Text files\<close>

text \<open>Reading in text mode turns \<^verbatim>\<open>\r\n\<close> and a lone \<^verbatim>\<open>\r\<close> into \<^verbatim>\<open>\n\<close>; writing
  changes nothing on POSIX.\<close>

fun universal_newlines :: "string \<Rightarrow> string" where
  "universal_newlines [] = []"
| "universal_newlines [c] = [if c = CHR 0x0D then CHR 0x0A else c]"
| "universal_newlines (c # d # cs) =
     (if c = CHR 0x0D \<and> d = CHR 0x0A then CHR 0x0A # universal_newlines cs
      else if c = CHR 0x0D then CHR 0x0A # universal_newlines (d # cs)
      else c # universal_newlines (d # cs))"

text \<open>\<^verbatim>\<open>open(path, 'r')\<close> and \<^verbatim>\<open>read()\<close>.\<close>

definition open_read :: "path \<Rightarrow> string io" where
  "open_read p s =
     (case disk s p of
        Some (File c) \<Rightarrow> (Inr (universal_newlines c), s)
      | Some Dir \<Rightarrow> (Inl (IsADirectoryError p), s)
      | None \<Rightarrow>
          (case disk s (parent p) of
             Some (File c) \<Rightarrow> (Inl (NotADirectoryError p), s)
           | _ \<Rightarrow> (Inl (FileNotFoundError p), s)))"

text \<open>\<^verbatim>\<open>open(path, 'w')\<close> and \<^verbatim>\<open>write(content)\<close>: the file is created or truncated.\<close>

definition open_write :: "path \<Rightarrow> string \<Rightarrow> unit io" where
  "open_write p content s =
     (case disk s p of
        Some Dir \<Rightarrow> (Inl (IsADirectoryError p), s)
      | _ \<Rightarrow>
          (case disk s (parent p) of
             Some Dir \<Rightarrow> (Inr (), s\<lparr>disk := (disk s)(p \<mapsto> File content)\<rparr>)
           | Some (File c) \<Rightarrow> (Inl (NotADirectoryError p), s)
           | None \<Rightarrow> (Inl (FileNotFoundError p), s)))"

subsection \<open>Directories\<close>

definition os_mkdir :: "path \<Rightarrow> filesystem \<Rightarrow> error + filesystem" where
  "os_mkdir p d =
     (if anchor p then Inl (FileExistsError p)
      else case d (parent p) of
             None \<Rightarrow> Inl (FileNotFoundError p)
           | Some (File c) \<Rightarrow> Inl (NotADirectoryError p)
           | Some Dir \<Rightarrow>
               (case d p of None \<Rightarrow> Inr (d(p \<mapsto> Dir)) | Some n \<Rightarrow> Inl (FileExistsError p)))"

text \<open>
  \<^verbatim>\<open>Path.mkdir(parents, exist_ok)\<close>, as pathlib writes it: try \<^verbatim>\<open>os.mkdir\<close>; on
  \<^verbatim>\<open>FileNotFoundError\<close>, with \<^verbatim>\<open>parents\<close>, make the parent (with its parents, tolerating
  that it exists) and try once more; any other \<^verbatim>\<open>OSError\<close> is swallowed only if
  \<^verbatim>\<open>exist_ok\<close> holds and the path is a directory.
\<close>

function mkdir :: "bool \<Rightarrow> bool \<Rightarrow> path \<Rightarrow> filesystem \<Rightarrow> error + filesystem" where
  "mkdir parents exist_ok p d =
     (case os_mkdir p d of
        Inr d' \<Rightarrow> Inr d'
      | Inl (FileNotFoundError q) \<Rightarrow>
          if \<not> parents \<or> parent p = p then Inl (FileNotFoundError q)
          else (case mkdir True True (parent p) d of
                  Inl e \<Rightarrow> Inl e
                | Inr d' \<Rightarrow> mkdir False exist_ok p d')
      | Inl e \<Rightarrow> if \<not> exist_ok \<or> d p \<noteq> Some Dir then Inl e else Inr d)"
  by pat_completeness auto
termination
  by (relation "measure (\<lambda>(parents, exist_ok, p, d). 2 * length p + (if parents then 1 else 0))")
     (auto simp: parent_def anchor_def split: if_splits)

declare mkdir.simps [simp del]

text \<open>\<^verbatim>\<open>path.exists()\<close> and \<^verbatim>\<open>path.mkdir(parents=...)\<close> on the world.\<close>

definition exists :: "path \<Rightarrow> world \<Rightarrow> bool" where
  "exists p s = (disk s p \<noteq> None)"

definition path_mkdir :: "bool \<Rightarrow> path \<Rightarrow> unit io" where
  "path_mkdir parents p s =
     (case mkdir parents False p (disk s) of
        Inl e \<Rightarrow> (Inl e, s)
      | Inr d' \<Rightarrow> (Inr (), s\<lparr>disk := d'\<rparr>))"

text \<open>What lies at or below a path; below the current directory lie the relative paths.\<close>

definition inside :: "path \<Rightarrow> path \<Rightarrow> bool" where
  "inside p q = (if p = [] then \<not> is_absolute q else prefix p q)"

text \<open>
  \<^verbatim>\<open>shutil.rmtree(path)\<close>: a missing path and a file are errors; a directory goes with
  all that lies below it. The current directory and a root lose their contents, and then
  the final \<^verbatim>\<open>rmdir\<close> fails.
\<close>

definition rmtree :: "path \<Rightarrow> unit io" where
  "rmtree p s =
     (case disk s p of
        None \<Rightarrow> (Inl (FileNotFoundError p), s)
      | Some (File c) \<Rightarrow> (Inl (NotADirectoryError p), s)
      | Some Dir \<Rightarrow>
          if anchor p
          then (Inl (OSError p), s\<lparr>disk := (\<lambda>q. if inside p q \<and> q \<noteq> p then None else disk s q)\<rparr>)
          else (Inr (), s\<lparr>disk := (\<lambda>q. if inside p q then None else disk s q)\<rparr>))"

section \<open>The helper functions of the script\<close>

definition write_file :: "path \<Rightarrow> string \<Rightarrow> unit io" where
  "write_file filepath content =
     bind_io (open_write filepath content) (\<lambda>_.
     logging_info (''Created '' @ str_path filepath))"

definition read_file :: "path \<Rightarrow> string io" where
  "read_file filepath = open_read filepath"

subsection \<open>Decoding the captured streams\<close>

text \<open>
  \<^verbatim>\<open>bytes.decode('utf-8')\<close> raises \<^verbatim>\<open>UnicodeDecodeError\<close> unless the bytes are well-formed
  UTF-8 (no overlong form, no surrogate, nothing above U+10FFFF). A Python \<^verbatim>\<open>str\<close> is
  modelled by its UTF-8 encoding, so decoding returns the bytes it has accepted.
\<close>

definition continuation :: "nat \<Rightarrow> bool" where
  "continuation b = (0x80 \<le> b \<and> b \<le> 0xBF)"

function well_formed_utf8 :: "nat list \<Rightarrow> bool" where
  "well_formed_utf8 [] = True"
| "well_formed_utf8 (b # bs) =
     (if b < 0x80 then well_formed_utf8 bs
      else
        (let n = (if 0xC2 \<le> b \<and> b \<le> 0xDF then 1
                  else if 0xE0 \<le> b \<and> b \<le> 0xEF then 2
                  else if 0xF0 \<le> b \<and> b \<le> 0xF4 then 3
                  else 0);
             lo = (if b = 0xE0 then 0xA0 else if b = 0xF0 then 0x90 else 0x80);
             hi = (if b = 0xED then 0x9F else if b = 0xF4 then 0x8F else 0xBF)
         in n \<noteq> 0 \<and> n \<le> length bs \<and> lo \<le> hd bs \<and> hd bs \<le> hi \<and>
            list_all continuation (take (n - 1) (tl bs)) \<and> well_formed_utf8 (drop n bs)))"
  by pat_completeness auto
termination
  by (relation "measure length") auto

definition decode_utf8 :: "string \<Rightarrow> error + string" where
  "decode_utf8 bytes =
     (if well_formed_utf8 (map of_char bytes) then Inr bytes else Inl UnicodeDecodeError)"

subsection \<open>Running a command\<close>

text \<open>
  \<^verbatim>\<open>subprocess.run(command, check=True, shell=True, stdout=PIPE, stderr=PIPE, env=env)\<close>:
  the child runs to its exit, with the environment of the script when \<^verbatim>\<open>env\<close> is
  \<^verbatim>\<open>None\<close>; a non-zero return code is the exception \<^verbatim>\<open>CalledProcessError\<close>, which
  \<open>run_command\<close> catches. An exception raised inside the handler, or by the decoding in
  the \<^verbatim>\<open>try\<close> body (it is no \<^verbatim>\<open>CalledProcessError\<close>), leaves \<open>run_command\<close>.
\<close>

definition subprocess_run :: "shell \<Rightarrow> string \<Rightarrow> environment option \<Rightarrow> completed io" where
  "subprocess_run sh command env s =
     (let (result, d') = sh command (case env of None \<Rightarrow> environ s | Some e \<Rightarrow> e) (disk s)
      in (Inr result, s\<lparr>disk := d', calls := calls s @ [(command, env)]\<rparr>))"

definition run_command :: "shell \<Rightarrow> string \<Rightarrow> environment option \<Rightarrow> unit io" where
  "run_command sh command env =
     bind_io (subprocess_run sh command env) (\<lambda>result.
     if returncode result = 0 then
       bind_io (logging_info (''Command succeeded: '' @ command)) (\<lambda>_.
       bind_io (lift (decode_utf8 (stdout result))) (\<lambda>out.
       logging_info out))
     else
       bind_io (logging_error (''Command failed: '' @ command)) (\<lambda>_.
       bind_io (lift (decode_utf8 (stderr result))) (\<lambda>err.
       logging_error err)))"

subsection \<open>Loading the configuration\<close>

text \<open>What \<^verbatim>\<open>yaml.safe_load\<close> can return: \<^verbatim>\<open>None\<close>, a scalar, a list or a dictionary
  (floats and dates are left out; a dictionary is the association list of its string
  keys, read with \<open>map_of\<close>).\<close>

datatype yaml =
    YNull
  | YBool bool
  | YInt int
  | YStr string
  | YSeq "yaml list"
  | YMap "(string \<times> yaml) list"

text \<open>
  \<open>load_config\<close> hands the operating system the path string as it is, so the string is
  resolved as the system resolves it: from the root or the current directory, component
  by component. Every component, the empty one after a trailing slash and \<^verbatim>\<open>.\<close> too, is
  looked up in what must be a directory (\<^verbatim>\<open>ENOTDIR\<close> otherwise), and a name that is not
  there is \<^verbatim>\<open>ENOENT\<close>. So \<^verbatim>\<open>f/\<close> and \<^verbatim>\<open>f/.\<close> name nothing when \<^verbatim>\<open>f\<close> is a file.
  (A string with a NUL character names nothing either; no name on the disk holds one.)
\<close>

datatype errno = ENOENT | ENOTDIR

fun walk :: "filesystem \<Rightarrow> path \<Rightarrow> string list \<Rightarrow> errno + node" where
  "walk d cur [] = (case d cur of None \<Rightarrow> Inl ENOENT | Some n \<Rightarrow> Inr n)"
| "walk d cur (c # cs) =
     (case d cur of
        None \<Rightarrow> Inl ENOENT
      | Some (File x) \<Rightarrow> Inl ENOTDIR
      | Some Dir \<Rightarrow> walk d (if c = [] \<or> c = ''.'' then cur else cur @ [c]) cs)"

definition stat :: "filesystem \<Rightarrow> string \<Rightarrow> errno + node" where
  "stat d name =
     (if name = [] then Inl ENOENT
      else walk d (if root_of name = [] then [] else [root_of name]) (split_on (CHR ''/'') name))"

text \<open>\<^verbatim>\<open>os.path.exists(name)\<close>: the string resolves.\<close>

definition os_path_exists :: "string \<Rightarrow> world \<Rightarrow> bool" where
  "os_path_exists name s = (case stat (disk s) name of Inl e \<Rightarrow> False | Inr n \<Rightarrow> True)"

text \<open>\<^verbatim>\<open>open(name, 'r')\<close> on a path string, and reading the text.\<close>

definition open_name :: "string \<Rightarrow> string io" where
  "open_name name s =
     (case stat (disk s) name of
        Inl ENOENT \<Rightarrow> (Inl (FileNotFoundError (Path name)), s)
      | Inl ENOTDIR \<Rightarrow> (Inl (NotADirectoryError (Path name)), s)
      | Inr Dir \<Rightarrow> (Inl (IsADirectoryError (Path name)), s)
      | Inr (File c) \<Rightarrow> (Inr (universal_newlines c), s))"

text \<open>
  The YAML parser is a parameter (\<open>None\<close>: the text is not YAML, and \<^verbatim>\<open>safe_load\<close>
  raises). \<^verbatim>\<open>exit(1)\<close> raises \<^verbatim>\<open>SystemExit(1)\<close>.
\<close>

definition load_config :: "(string \<Rightarrow> yaml option) \<Rightarrow> string \<Rightarrow> yaml io" where
  "load_config safe_load config_file s =
     (if \<not> os_path_exists config_file s then
        bind_io (logging_error (''Configuration file not found: '' @ config_file)) (\<lambda>_.
        raise (SystemExit 1)) s
      else
        bind_io (open_name config_file) (\<lambda>text.
        case safe_load text of
          None \<Rightarrow> raise YAMLError
        | Some config \<Rightarrow> return config) s)"

section \<open>The directory reset and the templates\<close>

text \<open>The three string constants of \<open>create_directories\<close>, character for character
  (the script's \<^verbatim>\<open>\\\<close> is one backslash, and each literal starts after its
  \<^verbatim>\<open>'''\\<close> line).\<close>

definition setup_content :: string where
  \<open>setup_content = concat
    [''from setuptools import setup, find_packages\<newline>'',
     ''\<newline>'',
     ''setup(\<newline>'',
     ''    name=\'Redzer\',\<newline>'',
     ''    version=\'0.1\',\<newline>'',
     ''    packages=find_packages(),\<newline>'',
     ''    install_requires=[\<newline>'',
     ''        \'requests\',\<newline>'',
     ''        \'python-nmap\',\<newline>'',
     ''        \'pytest\',\<newline>'',
     ''        \'numpy\',\<newline>'',
     ''        \'scikit-learn\',\<newline>'',
     ''        \'scapy\',\<newline>'',
     ''        \'tkinter\',\<newline>'',
     ''        \'PyQt5\',\<newline>'',
     ''        \'metasploit-py\',\<newline>'',
     ''        \'johnny\',\<newline>'',
     ''    ],\<newline>'',
     ''    entry_points={{\<newline>'',
     ''        \'console_scripts\': [\<newline>'',
     ''            \'redzer-cli = cli:main\',\<newline>'',
     ''        ],\<newline>'',
     ''    }},\<newline>'',
     ''    description=\'A Red Teaming Automation Tool\',\<newline>'',
     ''    long_description="""Redzer is a Python-based tool designed to automate various tasks commonly used during Red Team engagements. \<newline>'',
     ''    It provides functionalities for network scanning, vulnerability assessment, exploitation, and post-exploitation activities. \<newline>'',
     ''    This tool is intended for educational purposes and penetration testing professionals. \<newline>'',
     ''    Use it responsibly and ethically.""",\<newline>'',
     ''    long_description_content_type="text/markdown",\<newline>'',
     ''    author=\'Your Name\',\<newline>'',
     ''    author_email=\'youremail@example.com\',\<newline>'',
     ''    url=\'https://github.com/yourusername/redzer\',\<newline>'',
     ''    license=\'MIT\',\<newline>'',
     ''    keywords=\'redteam security automation pentest\',\<newline>'',
     ''    platforms=\'any\',\<newline>'',
     ''    classifiers=[\<newline>'',
     ''        \'Development Status :: 3 - Alpha\',\<newline>'',
     ''        \'Intended Audience :: Security Professionals\',\<newline>'',
     ''        \'License :: OSI Approved :: MIT License\',\<newline>'',
     ''        \'Operating System :: OS Independent\',\<newline>'',
     ''        \'Programming Language :: Python :: 3\',\<newline>'',
     ''        \'Topic :: Security :: Penetration Testing\',\<newline>'',
     ''    ],\<newline>'',
     '')\<newline>'']\<close>

definition redzer_spec_content :: string where
  \<open>redzer_spec_content = concat
    [''# redzer.spec\<newline>'',
     ''block_cipher = None\<newline>'',
     ''\<newline>'',
     ''a = Analysis([\'cli.py\'],\<newline>'',
     ''       pathex=[\'.\'],\<newline>'',
     ''       binaries=[],\<newline>'',
     ''       datas=[(\'config.yaml\', \'.\')],\<newline>'',
     ''       hiddenimports=[],\<newline>'',
     ''       hookspath=[],\<newline>'',
     ''       runtime_hooks=[],\<newline>'',
     ''       excludes=[],\<newline>'',
     ''       winnoexcludes=[],\<newline>'',
     ''       cipher=block_cipher,\<newline>'',
     ''       noarchive=False)\<newline>'',
     ''pyz = PYZ(a.pure, a.zipped_data,\<newline>'',
     ''       cipher=block_cipher)\<newline>'',
     ''exe = EXE(pyz,\<newline>'',
     ''     a.scripts,\<newline>'',
     ''     a.binaries,\<newline>'',
     ''     a.zipfiles,\<newline>'',
     ''     a.datas,\<newline>'',
     ''     [],\<newline>'',
     ''     name=\'redzer\',\<newline>'',
     ''     debug=False,\<newline>'',
     ''     bootloader_ignore_signals=False,\<newline>'',
     ''     strip=False,\<newline>'',
     ''     upx=True,\<newline>'',
     ''     upx_exclude=[],\<newline>'',
     ''     runtime_tmpdir=None,\<newline>'',
     ''     console=True, icon=\'icon.ico\')\<newline>'',
     ''coll = COLLECT(exe,\<newline>'',
     ''        a.binaries,\<newline>'',
     ''        a.zipfiles,\<newline>'',
     ''        a.datas,\<newline>'',
     ''        strip=False,\<newline>'',
     ''        upx=True,\<newline>'',
     ''        upx_exclude=[],\<newline>'',
     ''        runtime_tmpdir=None)\<newline>'']\<close>

definition redzer_installer_content :: string where
  \<open>redzer_installer_content = concat
    [''; redzer_installer.iss\<newline>'',
     ''[Setup]\<newline>'',
     ''AppName=Redzer\<newline>'',
     ''AppVersion=0.1\<newline>'',
     ''DefaultDirName={pf}'' @ [CHR 0x5C] @ ''Redzer\<newline>'',
     ''DefaultGroupName=Redzer\<newline>'',
     ''OutputBaseFilename=redzer_installer\<newline>'',
     ''Compression=lzma\<newline>'',
     ''SolidCompression=yes\<newline>'',
     ''\<newline>'',
     ''[Languages]\<newline>'',
     ''Name: "english"; MessagesFile: "compiler:Default.isl"\<newline>'',
     ''\<newline>'',
     ''[Tasks]\<newline>'',
     ''Name: "desktopicon"; Description: "{cm:CreateDesktopIcon}"; GroupDescription: "{cm:AdditionalIcons}"; Flags: checkedonce\<newline>'',
     ''\<newline>'',
     ''[Files]\<newline>'',
     ''Source: "dist'' @ [CHR 0x5C] @ ''redzer.exe"; DestDir: "{app}"; Flags: ignoreversion\<newline>'',
     ''Source: "config.yaml"; DestDir: "{app}"; Flags: ignoreversion\<newline>'',
     ''\<newline>'',
     ''[Icons]\<newline>'',
     ''Name: "{group}'' @ [CHR 0x5C] @ ''Redzer"; Filename: "{app}'' @ [CHR 0x5C] @ ''redzer.exe"\<newline>'',
     ''Name: "{commondesktop}'' @ [CHR 0x5C] @ ''Redzer"; Filename: "{app}'' @ [CHR 0x5C] @ ''redzer.exe"; Tasks: desktopicon\<newline>'',
     ''\<newline>'',
     ''[Run]\<newline>'',
     ''Filename: "{app}'' @ [CHR 0x5C] @ ''redzer.exe"; Description: "{cm:LaunchProgram,Redzer}"; Flags: nowait postinstall skipifsilent\<newline>'']\<close>

text \<open>The dictionary \<open>template_files\<close>, in insertion order, and the loop over its items.\<close>

definition template_files :: "path \<Rightarrow> (path \<times> string) list" where
  "template_files template_dir =
     [(joinpath template_dir ''setup_template.py'', setup_content),
      (joinpath template_dir ''redzer_template.spec'', redzer_spec_content),
      (joinpath template_dir ''redzer_installer_template.iss'', redzer_installer_content)]"

fun write_files :: "(path \<times> string) list \<Rightarrow> unit io" where
  "write_files [] = return ()"
| "write_files ((path, content) # items) =
     bind_io (write_file path content) (\<lambda>_. write_files items)"

definition create_directories :: "path \<Rightarrow> path \<Rightarrow> unit io" where
  "create_directories project_dir template_dir =
     bind_io (\<lambda>s.
       if exists project_dir s then
         bind_io (logging_info (''Removing existing project directory: '' @ str_path project_dir)) (\<lambda>_.
         rmtree project_dir) s
       else return () s) (\<lambda>_.
     bind_io (path_mkdir True project_dir) (\<lambda>_.
     bind_io (path_mkdir False (joinpath project_dir ''modules'')) (\<lambda>_.
     bind_io (path_mkdir False (joinpath project_dir ''services'')) (\<lambda>_.
     bind_io (path_mkdir False (joinpath project_dir ''caching'')) (\<lambda>_.
     bind_io (path_mkdir False (joinpath project_dir ''tests'')) (\<lambda>_.
     bind_io (path_mkdir False (joinpath project_dir ''templates'')) (\<lambda>_.
     bind_io (logging_info ''Created project directory structure'') (\<lambda>_.
     write_files (template_files template_dir)))))))))"

section \<open>The workflow\<close>

text \<open>\<^verbatim>\<open>config[key]\<close>: only a mapping can be subscripted with a string, and a key it does
  not hold is a \<^verbatim>\<open>KeyError\<close>.\<close>

definition subscript :: "yaml \<Rightarrow> string \<Rightarrow> error + yaml" where
  "subscript config key =
     (case config of
        YMap m \<Rightarrow> (case map_of m key of None \<Rightarrow> Inl (KeyError key) | Some v \<Rightarrow> Inr v)
      | _ \<Rightarrow> Inl TypeError)"

text \<open>\<^verbatim>\<open>Path(v)\<close> and \<^verbatim>\<open>p / v\<close> for a value of the configuration: a \<^verbatim>\<open>TypeError\<close> unless
  it is a string.\<close>

definition Path_of :: "yaml \<Rightarrow> error + path" where
  "Path_of v = (case v of YStr s \<Rightarrow> Inr (Path s) | _ \<Rightarrow> Inl TypeError)"

definition truediv :: "path \<Rightarrow> yaml \<Rightarrow> error + path" where
  "truediv p v = (case v of YStr s \<Rightarrow> Inr (joinpath p s) | _ \<Rightarrow> Inl TypeError)"

text \<open>
  \<open>initialize_project\<close> is embedded in two halves, so that the world between them can be
  named: \<open>write_project_files\<close> is the function down to the last \<open>write_file\<close> (lines
  182 to 203), and \<open>run_build_commands\<close> is the rest (lines 205 to 225), which uses the
  paths the first half has computed.
\<close>

definition write_project_files :: "yaml \<Rightarrow> (path \<times> path \<times> path \<times> path) io" where
  "write_project_files config =
     bind_io (lift (subscript config ''project_name'')) (\<lambda>project_name.
     bind_io (lift (subscript config ''project_dir'')) (\<lambda>dir.
     bind_io (lift (Path_of dir)) (\<lambda>root.
     bind_io (lift (truediv root project_name)) (\<lambda>project_dir.
     let template_dir = joinpath project_dir ''templates'' in
     bind_io (lift (subscript config ''venv_dir'')) (\<lambda>venv.
     bind_io (lift (truediv project_dir venv)) (\<lambda>venv_dir.
     bind_io (logging_info ''Initializing project...'') (\<lambda>_.
     bind_io (create_directories project_dir template_dir) (\<lambda>_.
     let setup_path = joinpath project_dir ''setup.py'' in
     bind_io (read_file (joinpath template_dir ''setup_template.py'')) (\<lambda>setup_content.
     bind_io (write_file setup_path setup_content) (\<lambda>_.
     let spec_path = joinpath project_dir ''redzer.spec'' in
     bind_io (read_file (joinpath template_dir ''redzer_template.spec'')) (\<lambda>spec_content.
     bind_io (write_file spec_path spec_content) (\<lambda>_.
     let inno_setup_path = joinpath project_dir ''redzer_installer.iss'' in
     bind_io (read_file (joinpath template_dir ''redzer_installer_template.iss'')) (\<lambda>inno_setup_content.
     bind_io (write_file inno_setup_path inno_setup_content) (\<lambda>_.
     return (project_dir, venv_dir, spec_path, inno_setup_path)))))))))))))))"

definition run_build_commands :: "shell \<Rightarrow> yaml \<Rightarrow> path \<times> path \<times> path \<times> path \<Rightarrow> unit io" where
  "run_build_commands sh config paths =
     (case paths of (project_dir, venv_dir, spec_path, inno_setup_path) \<Rightarrow>
     bind_io (run_command sh (''python -m venv '' @ str_path venv_dir) None) (\<lambda>_.
     let scripts = joinpath venv_dir ''Scripts'';
         activate_env = str_path (joinpath scripts ''activate'') in
     bind_io (lift (subscript config ''requirements_file'')) (\<lambda>requirements_file.
     bind_io (lift (truediv project_dir requirements_file)) (\<lambda>requirements.
     let pip_install = str_path (joinpath scripts ''pip'') @ '' install -r '' @ str_path requirements;
         pyinstaller_install = str_path (joinpath scripts ''pip'') @ '' install pyinstaller'' in
     bind_io (\<lambda>s. return (environ s) s) (\<lambda>copy.
     let env1 = copy(''VIRTUAL_ENV'' \<mapsto> str_path venv_dir) in
     bind_io (lift (case env1 ''PATH'' of None \<Rightarrow> Inl (KeyError ''PATH'') | Some old \<Rightarrow> Inr old)) (\<lambda>old.
     let env = env1(''PATH'' \<mapsto> str_path scripts @ '';'' @ old) in
     bind_io (run_command sh (activate_env @ '' && '' @ pip_install) (Some env)) (\<lambda>_.
     bind_io (run_command sh (activate_env @ '' && '' @ pyinstaller_install) (Some env)) (\<lambda>_.
     bind_io (run_command sh (str_path (joinpath scripts ''pyinstaller'') @ '' '' @ str_path spec_path) (Some env)) (\<lambda>_.
     bind_io (run_command sh (''ISCC '' @ str_path inno_setup_path) None) (\<lambda>_.
     logging_info ''Project initialization complete''))))))))))"

definition initialize_project :: "shell \<Rightarrow> yaml \<Rightarrow> unit io" where
  "initialize_project sh config =
     bind_io (write_project_files config) (run_build_commands sh config)"

text \<open>
  The entry point of the script parses the command line and calls \<open>load_config\<close> on the
  path it was given; the text of the source ends inside that statement. What is said
  below of the workflow as a whole is said of \<open>load_config\<close> and \<open>initialize_project\<close>,
  the two functions it runs.
\<close>

section \<open>Vocabulary of the properties\<close>

text \<open>A computation never ends in \<^verbatim>\<open>SystemExit\<close>.\<close>

definition never_exits :: "'a io \<Rightarrow> bool" where
  "never_exits m = (\<forall>s c s'. m s \<noteq> (Inl (SystemExit c), s'))"

definition is_str :: "yaml \<Rightarrow> bool" where
  "is_str v = (case v of YStr s \<Rightarrow> True | _ \<Rightarrow> False)"

subsection \<open>A sample world\<close>

text \<open>A current directory that holds a directory \<^verbatim>\<open>work\<close> and an empty file
  \<^verbatim>\<open>empty.yaml\<close>; a configuration with all four fields; a shell whose children all
  succeed and leave the disk alone.\<close>

definition demo_disk :: filesystem where
  "demo_disk = [[] \<mapsto> Dir, [''/''] \<mapsto> Dir, [''//''] \<mapsto> Dir, [''work''] \<mapsto> Dir,
                [''empty.yaml''] \<mapsto> File []]"

definition demo_world :: world where
  "demo_world = \<lparr>disk = demo_disk, environ = [''PATH'' \<mapsto> ''/usr/bin''], log = [], calls = []\<rparr>"

definition demo_config :: yaml where
  "demo_config = YMap [(''project_name'', YStr ''demo''), (''project_dir'', YStr ''work''),
     (''venv_dir'', YStr ''venv''), (''requirements_file'', YStr ''requirements.txt'')]"

text \<open>The same world after an earlier use: the project directory is there, with a
  directory of old files and a stray file in it.\<close>

definition used_disk :: filesystem where
  "used_disk = demo_disk
     ([''work'', ''demo''] \<mapsto> Dir,
      [''work'', ''demo'', ''old''] \<mapsto> Dir,
      [''work'', ''demo'', ''old'', ''notes.txt''] \<mapsto> File ''notes'',
      [''work'', ''demo'', ''stray.txt''] \<mapsto> File ''left over'')"

definition used_world :: world where
  "used_world = demo_world\<lparr>disk := used_disk\<rparr>"

definition quiet_shell :: shell where
  "quiet_shell command env d = (\<lparr>returncode = 0, stdout = ''ok'', stderr = []\<rparr>, d)"

subsection \<open>Well-formed file systems and the result of the reset\<close>

text \<open>
  In a well-formed file system the current directory and the roots are directories, and
  whatever exists lies in a directory. \<open>with_dirs p d\<close> is \<open>d\<close> after \<^verbatim>\<open>mkdir -p p\<close>;
  \<open>cleared pd d\<close> is \<open>d\<close> without what lies at or below \<open>pd\<close>; \<open>skeleton\<close> is the tree
  that \<open>create_directories\<close> leaves at the project directory, read relative to it, and
  \<open>reset pd d\<close> is the whole file system it leaves.
\<close>

definition wf_fs :: "filesystem \<Rightarrow> bool" where
  "wf_fs d = ((\<forall>p. anchor p \<longrightarrow> d p = Some Dir) \<and> (\<forall>p. d p \<noteq> None \<longrightarrow> d (parent p) = Some Dir))"

text \<open>The result of a successful mkdir.\<close>

definition with_dirs :: "path \<Rightarrow> filesystem \<Rightarrow> filesystem" where
  "with_dirs p d = (\<lambda>q. if prefix q p then Some Dir else d q)"

definition skeleton :: "path \<Rightarrow> node option" where
  "skeleton r =
     (if r = [] \<or> r = [''modules''] \<or> r = [''services''] \<or> r = [''caching''] \<or>
         r = [''tests''] \<or> r = [''templates''] then Some Dir
      else if r = [''templates'', ''setup_template.py''] then Some (File setup_content)
      else if r = [''templates'', ''redzer_template.spec''] then Some (File redzer_spec_content)
      else if r = [''templates'', ''redzer_installer_template.iss''] then Some (File redzer_installer_content)
      else None)"

definition reset :: "path \<Rightarrow> filesystem \<Rightarrow> filesystem" where
  "reset pd d =
     (\<lambda>q. if prefix pd q then skeleton (drop (length pd) q)
          else if prefix q pd then Some Dir
          else d q)"

text \<open>The first step of create_directories: whatever was at the project directory is gone.\<close>

definition cleared :: "path \<Rightarrow> filesystem \<Rightarrow> filesystem" where
  "cleared pd d = (\<lambda>q. if prefix pd q then None else d q)"

definition created_log :: "path \<Rightarrow> (level \<times> string) list" where
  "created_log pd =
     [(INFO, ''Created project directory structure''),
      (INFO, ''Created '' @ str_path (pd @ [''templates'', ''setup_template.py''])),
      (INFO, ''Created '' @ str_path (pd @ [''templates'', ''redzer_template.spec''])),
      (INFO, ''Created '' @ str_path (pd @ [''templates'', ''redzer_installer_template.iss'']))]"

text \<open>The whole tree at the project directory after the file-writing steps.\<close>

definition project_tree :: "path \<Rightarrow> node option" where
  "project_tree r =
     (if r = [''setup.py''] then Some (File setup_content)
      else if r = [''redzer.spec''] then Some (File redzer_spec_content)
      else if r = [''redzer_installer.iss''] then Some (File redzer_installer_content)
      else skeleton r)"

subsection \<open>Shells and what they print\<close>

text \<open>
  \<open>garbled_shell\<close>: every child fails and writes the single byte \<^verbatim>\<open>0xFF\<close>, which is not
  UTF-8, to its error stream. \<open>output_decodes r\<close>: the stream that \<open>run_command\<close> decodes
  (the output of a child that succeeded, the error stream of one that failed) is
  well-formed UTF-8. \<open>keeps_processes m\<close>: \<open>m\<close> starts no child and leaves the
  environment alone.
\<close>

definition garbled_shell :: shell where
  "garbled_shell command env d = (\<lparr>returncode = 1, stdout = [], stderr = [CHR 0xFF]\<rparr>, d)"

text \<open>
  \<open>half_made_venv_shell\<close>: every child makes the directory \<^verbatim>\<open>work/demo/venv\<close>, then fails
  and writes the byte \<^verbatim>\<open>0xFF\<close> to its error stream.
\<close>

definition half_made_venv_shell :: shell where
  "half_made_venv_shell command env d =
     (\<lparr>returncode = 1, stdout = [], stderr = [CHR 0xFF]\<rparr>, d([''work'', ''demo'', ''venv''] \<mapsto> Dir))"

definition output_decodes :: "completed \<Rightarrow> bool" where
  "output_decodes r =
     well_formed_utf8 (map of_char (if returncode r = 0 then stdout r else stderr r))"

definition keeps_processes :: "'a io \<Rightarrow> bool" where
  "keeps_processes m = (\<forall>s r s'. m s = (r, s') \<longrightarrow> environ s' = environ s \<and> calls s' = calls s)"

section \<open>Basic facts\<close>

lemma bind_io_Inr_iff:
  "bind_io m f s = (Inr y, s') \<longleftrightarrow> (\<exists>x s1. m s = (Inr x, s1) \<and> f x s1 = (Inr y, s'))"
  by (auto simp: bind_io_def split: prod.splits sum.splits)

lemma bind_io_Inl_iff:
  "bind_io m f s = (Inl e, s') \<longleftrightarrow>
     m s = (Inl e, s') \<or> (\<exists>x s1. m s = (Inr x, s1) \<and> f x s1 = (Inl e, s'))"
  by (auto simp: bind_io_def split: prod.splits sum.splits)

lemma bind_io_step: "m s = (Inr x, s1) \<Longrightarrow> bind_io m f s = f x s1"
  by (simp add: bind_io_def)

lemma bind_io_stop: "m s = (Inl e, s1) \<Longrightarrow> bind_io m f s = (Inl e, s1)"
  by (simp add: bind_io_def)

lemma bind_io_lift_Inr [simp]: "bind_io (lift (Inr x)) f = f x"
  by (rule ext) (simp add: bind_io_def lift_def)

lemma bind_io_lift_Inl [simp]: "bind_io (lift (Inl e)) f s = (Inl e, s)"
  by (simp add: bind_io_def lift_def)

lemma bind_io_logging_info [simp]:
  "bind_io (logging_info msg) f s = f () (s\<lparr>log := log s @ [(INFO, msg)]\<rparr>)"
  by (simp add: bind_io_def logging_info_def)

lemma bind_io_logging_error [simp]:
  "bind_io (logging_error msg) f s = f () (s\<lparr>log := log s @ [(ERROR, msg)]\<rparr>)"
  by (simp add: bind_io_def logging_error_def)

lemma join_simps [simp]:
  "joinpath p ''modules'' = p @ [''modules'']"
  "joinpath p ''services'' = p @ [''services'']"
  "joinpath p ''caching'' = p @ [''caching'']"
  "joinpath p ''tests'' = p @ [''tests'']"
  "joinpath p ''templates'' = p @ [''templates'']"
  "joinpath p ''setup_template.py'' = p @ [''setup_template.py'']"
  "joinpath p ''redzer_template.spec'' = p @ [''redzer_template.spec'']"
  "joinpath p ''redzer_installer_template.iss'' = p @ [''redzer_installer_template.iss'']"
  "joinpath p ''setup.py'' = p @ [''setup.py'']"
  "joinpath p ''redzer.spec'' = p @ [''redzer.spec'']"
  "joinpath p ''redzer_installer.iss'' = p @ [''redzer_installer.iss'']"
  "joinpath p ''Scripts'' = p @ [''Scripts'']"
  "joinpath p ''activate'' = p @ [''activate'']"
  "joinpath p ''pip'' = p @ [''pip'']"
  "joinpath p ''pyinstaller'' = p @ [''pyinstaller'']"
  by (simp_all add: joinpath_def Path_def root_of_def is_absolute_def)

subsection \<open>No step of the workflow calls exit\<close>

lemma never_exits_bind:
  "never_exits m \<Longrightarrow> (\<And>x. never_exits (f x)) \<Longrightarrow> never_exits (bind_io m f)"
  by (auto simp: never_exits_def bind_io_def split: prod.splits sum.splits)

lemma never_exits_return: "never_exits (return x)"
  by (simp add: never_exits_def return_def)

lemma never_exits_logging: "never_exits (logging_info msg)" "never_exits (logging_error msg)"
  by (simp_all add: never_exits_def logging_info_def logging_error_def)

lemma never_exits_lift: "(\<And>c. r \<noteq> Inl (SystemExit c)) \<Longrightarrow> never_exits (lift r)"
  by (simp add: never_exits_def lift_def)

lemma subscript_no_exit: "subscript config key \<noteq> Inl (SystemExit c)"
  by (simp add: subscript_def split: yaml.splits option.splits)

lemma Path_of_no_exit: "Path_of v \<noteq> Inl (SystemExit c)"
  by (simp add: Path_of_def split: yaml.splits)

lemma truediv_no_exit: "truediv p v \<noteq> Inl (SystemExit c)"
  by (simp add: truediv_def split: yaml.splits)

lemma decode_utf8_no_exit: "decode_utf8 b \<noteq> Inl (SystemExit c)"
  by (simp add: decode_utf8_def)

lemma os_mkdir_no_exit: "os_mkdir p d \<noteq> Inl (SystemExit c)"
  by (simp add: os_mkdir_def split: option.splits node.splits)

lemma mkdir_unfold:
  "mkdir parents exist_ok p d =
     (case os_mkdir p d of
        Inr d' \<Rightarrow> Inr d'
      | Inl e \<Rightarrow>
          (if (\<exists>q. e = FileNotFoundError q) then
             (if \<not> parents \<or> parent p = p then Inl e
              else (case mkdir True True (parent p) d of
                      Inl e' \<Rightarrow> Inl e'
                    | Inr d' \<Rightarrow> mkdir False exist_ok p d'))
           else if \<not> exist_ok \<or> d p \<noteq> Some Dir then Inl e else Inr d))"
  by (subst mkdir.simps) (simp split: sum.splits error.splits)


lemma mkdir_no_exit: "mkdir parents exist_ok p d \<noteq> Inl (SystemExit c)"
proof (induction parents exist_ok p d rule: mkdir.induct)
  case (1 parents exist_ok p d)
  show ?case
    using "1.IH" os_mkdir_no_exit[of p d c]
    by (subst mkdir_unfold) (auto split: sum.splits)
qed

lemma never_exits_path_mkdir: "never_exits (path_mkdir parents p)"
  using mkdir_no_exit by (auto simp: never_exits_def path_mkdir_def split: sum.splits)

lemma never_exits_rmtree: "never_exits (rmtree p)"
  by (auto simp: never_exits_def rmtree_def split: option.splits node.splits)

lemma never_exits_open_read: "never_exits (open_read p)"
  by (auto simp: never_exits_def open_read_def split: option.splits node.splits)

lemma never_exits_open_name: "never_exits (open_name name)"
  by (auto simp: never_exits_def open_name_def split: sum.splits errno.splits node.splits)

lemma never_exits_open_write: "never_exits (open_write p c)"
  by (auto simp: never_exits_def open_write_def split: option.splits node.splits)

lemma never_exits_write_file: "never_exits (write_file p c)"
  unfolding write_file_def
  by (intro never_exits_bind never_exits_open_write never_exits_logging)

lemma never_exits_write_files: "never_exits (write_files items)"
  by (induction items) (auto intro!: never_exits_bind never_exits_write_file never_exits_return)

lemma never_exits_subprocess_run: "never_exits (subprocess_run sh command env)"
  by (auto simp: never_exits_def subprocess_run_def split: prod.splits)

lemma never_exits_run_command: "never_exits (run_command sh command env)"
  unfolding run_command_def
  by (auto intro!: never_exits_bind never_exits_subprocess_run never_exits_logging
        never_exits_lift simp: decode_utf8_no_exit)

lemma never_exits_create_directories: "never_exits (create_directories project_dir template_dir)"
  unfolding create_directories_def
  apply (intro never_exits_bind never_exits_path_mkdir never_exits_logging never_exits_write_files)
  apply (auto simp: never_exits_def)
  using never_exits_rmtree[unfolded never_exits_def] apply blast
  apply (simp add: return_def)
  done

lemma never_exits_write_project_files: "never_exits (write_project_files config)"
  unfolding write_project_files_def Let_def read_file_def
  by (intro never_exits_bind never_exits_lift never_exits_logging never_exits_create_directories
        never_exits_open_read never_exits_write_file never_exits_return)
     (simp_all add: subscript_no_exit Path_of_no_exit truediv_no_exit)

lemma never_exits_run_build_commands: "never_exits (run_build_commands sh config paths)"
  unfolding run_build_commands_def Let_def
  apply (cases paths)
  apply (simp only: prod.case)
  apply (intro never_exits_bind never_exits_lift never_exits_logging never_exits_run_command)
  apply (simp_all add: subscript_no_exit truediv_no_exit never_exits_def return_def split: option.splits)
  done

lemma never_exits_initialize_project: "never_exits (initialize_project sh config)"
  unfolding initialize_project_def
  by (intro never_exits_bind never_exits_write_project_files never_exits_run_build_commands)

subsection \<open>Looking the configuration up\<close>

lemma subscript_YMap:
  "subscript (YMap m) key = (case map_of m key of None \<Rightarrow> Inl (KeyError key) | Some v \<Rightarrow> Inr v)"
  by (simp add: subscript_def)

lemma Path_of_str: "is_str v \<Longrightarrow> \<exists>s. v = YStr s \<and> Path_of v = Inr (Path s)"
  by (cases v) (simp_all add: is_str_def Path_of_def)

lemma truediv_str: "is_str v \<Longrightarrow> \<exists>s. v = YStr s \<and> truediv p v = Inr (joinpath p s)"
  by (cases v) (simp_all add: is_str_def truediv_def)

lemma write_project_files_missing_venv_dir:
  assumes "map_of m ''venv_dir'' = None"
  shows "\<exists>e. write_project_files (YMap m) s = (Inl e, s)"
proof (cases "map_of m ''project_name''")
  case None
  then show ?thesis by (simp add: write_project_files_def subscript_YMap)
next
  case name: (Some name)
  show ?thesis
  proof (cases "map_of m ''project_dir''")
    case None
    with name show ?thesis by (simp add: write_project_files_def subscript_YMap)
  next
    case dir: (Some dir)
    show ?thesis
    proof (cases "Path_of dir")
      case (Inl e)
      with name dir show ?thesis by (simp add: write_project_files_def subscript_YMap)
    next
      case root: (Inr root)
      show ?thesis
      proof (cases "truediv root name")
        case (Inl e)
        with name dir root show ?thesis by (simp add: write_project_files_def subscript_YMap)
      next
        case (Inr project_dir)
        with name dir root assms show ?thesis
          by (simp add: write_project_files_def subscript_YMap Let_def)
      qed
    qed
  qed
qed

lemma write_project_files_missing_key:
  assumes "map_of m ''venv_dir'' = None"
    and "\<forall>v. map_of m ''project_name'' = Some v \<longrightarrow> is_str v"
    and "\<forall>v. map_of m ''project_dir'' = Some v \<longrightarrow> is_str v"
  shows "write_project_files (YMap m) s =
     (Inl (KeyError (if map_of m ''project_name'' = None then ''project_name''
                     else if map_of m ''project_dir'' = None then ''project_dir''
                     else ''venv_dir'')), s)"
proof (cases "map_of m ''project_name''")
  case None
  then show ?thesis by (simp add: write_project_files_def subscript_YMap)
next
  case name: (Some name)
  show ?thesis
  proof (cases "map_of m ''project_dir''")
    case None
    with name show ?thesis by (simp add: write_project_files_def subscript_YMap)
  next
    case dir: (Some dir)
    from assms(3) dir obtain d where d: "dir = YStr d" "Path_of dir = Inr (Path d)"
      using Path_of_str by blast
    from assms(2) name obtain n where n: "name = YStr n" "truediv (Path d) name = Inr (joinpath (Path d) n)"
      using truediv_str by blast
    from name dir d n assms(1) show ?thesis
      by (simp add: write_project_files_def subscript_YMap Let_def)
  qed
qed

lemma initialize_project_not_a_mapping:
  "(\<forall>m. config \<noteq> YMap m) \<Longrightarrow> initialize_project sh config s = (Inl TypeError, s)"
proof -
  assume "\<forall>m. config \<noteq> YMap m"
  then have "write_project_files config s = (Inl TypeError, s)"
    by (cases config) (simp_all add: write_project_files_def subscript_def)
  then show ?thesis
    by (simp add: initialize_project_def bind_io_stop)
qed

section \<open>The file system\<close>

lemma wf_anchor: "wf_fs d \<Longrightarrow> anchor p \<Longrightarrow> d p = Some Dir"
  by (simp add: wf_fs_def)

lemma wf_parent: "wf_fs d \<Longrightarrow> d p \<noteq> None \<Longrightarrow> d (parent p) = Some Dir"
  by (simp add: wf_fs_def)

lemma anchor_append [simp]: "anchor (p @ [x]) \<longleftrightarrow> p = [] \<and> (x = ''/'' \<or> x = ''//'')"
  by (auto simp: anchor_def)

lemma anchor_Nil [simp]: "anchor []"
  by (simp add: anchor_def)

lemma parent_append: "\<not> anchor (p @ [x]) \<Longrightarrow> parent (p @ [x]) = p"
  by (simp add: parent_def)

lemma wf_ancestors:
  "wf_fs d \<Longrightarrow> d q \<noteq> None \<Longrightarrow> strict_prefix r q \<Longrightarrow> d r = Some Dir"
proof (induction q arbitrary: r rule: rev_induct)
  case Nil
  then show ?case by simp
next
  case (snoc x q)
  from snoc.prems(3) have rq: "prefix r q" by (auto simp: strict_prefix_def)
  show ?case
  proof (cases "anchor (q @ [x])")
    case True
    with rq have "r = []" by auto
    with snoc.prems(1) show ?thesis by (simp add: wf_anchor)
  next
    case False
    with wf_parent[OF snoc.prems(1,2)] have q: "d q = Some Dir" by (simp add: parent_append)
    show ?thesis
    proof (cases "r = q")
      case True
      with q show ?thesis by simp
    next
      case False
      with rq have "strict_prefix r q" by (simp add: strict_prefix_def)
      with snoc.IH[OF snoc.prems(1)] q show ?thesis by simp
    qed
  qed
qed

lemma wf_nothing_below:
  "wf_fs d \<Longrightarrow> d p \<noteq> Some Dir \<Longrightarrow> strict_prefix p q \<Longrightarrow> d q = None"
  using wf_ancestors by blast

lemma wf_with_dirs: "wf_fs d \<Longrightarrow> wf_fs (with_dirs p d)"
proof -
  assume wf: "wf_fs d"
  have pp: "\<And>q. prefix q p \<Longrightarrow> prefix (parent q) p"
    by (auto simp: parent_def intro: prefix_order.trans[OF prefixeq_butlast])
  show ?thesis
    unfolding wf_fs_def
  proof (intro conjI allI impI)
    fix q assume "anchor q"
    with wf show "with_dirs p d q = Some Dir" by (simp add: with_dirs_def wf_anchor)
  next
    fix q assume "with_dirs p d q \<noteq> None"
    then show "with_dirs p d (parent q) = Some Dir"
      using pp[of q] wf_parent[OF wf, of q] by (auto simp: with_dirs_def split: if_splits)
  qed
qed

lemma os_mkdir_Inr:
  "os_mkdir p d = Inr d' \<longleftrightarrow>
     \<not> anchor p \<and> d (parent p) = Some Dir \<and> d p = None \<and> d' = d(p \<mapsto> Dir)"
  by (auto simp: os_mkdir_def split: option.splits node.splits)

lemma os_mkdir_FileNotFound:
  "os_mkdir p d = Inl (FileNotFoundError q) \<longleftrightarrow> \<not> anchor p \<and> d (parent p) = None \<and> q = p"
  by (auto simp: os_mkdir_def split: option.splits node.splits)

lemma with_dirs_step:
  assumes "wf_fs d" "\<not> anchor p" "d (parent p) = Some Dir"
  shows "d(p \<mapsto> Dir) = with_dirs p d"
proof (rule ext)
  fix q
  show "(d(p \<mapsto> Dir)) q = with_dirs p d q"
  proof (cases "strict_prefix q p")
    case True
    then have "prefix q (parent p)"
      using assms(2) by (cases p rule: rev_cases) (auto simp: parent_def strict_prefix_def)
    then have "d q = Some Dir"
      using wf_ancestors[OF assms(1), of "parent p" q] assms(3)
      by (cases "q = parent p") (auto simp: strict_prefix_def)
    with True show ?thesis by (auto simp: with_dirs_def strict_prefix_def)
  next
    case False
    then show ?thesis by (auto simp: with_dirs_def strict_prefix_def)
  qed
qed

lemma with_dirs_existing:
  assumes "wf_fs d" "d p = Some Dir"
  shows "with_dirs p d = d"
proof (rule ext)
  fix q
  show "with_dirs p d q = d q"
    using wf_ancestors[OF assms(1), of p q] assms(2)
    by (cases "q = p") (auto simp: with_dirs_def strict_prefix_def)
qed

lemma with_dirs_parent:
  "\<not> anchor p \<Longrightarrow> with_dirs p (with_dirs (parent p) d) = with_dirs p d"
proof -
  assume "\<not> anchor p"
  then have "\<And>q. prefix q (parent p) \<Longrightarrow> prefix q p"
    by (auto simp: parent_def intro: prefix_order.trans[OF _ prefixeq_butlast])
  then show ?thesis
    by (auto simp: with_dirs_def fun_eq_iff)
qed

lemma mkdir_result:
  "wf_fs d \<Longrightarrow> mkdir parents exist_ok p d = Inr d' \<Longrightarrow> d' = with_dirs p d"
proof (induction parents exist_ok p d arbitrary: d' rule: mkdir.induct)
  case (1 parents exist_ok p d)
  note u = mkdir_unfold[of parents exist_ok p d]
  show ?case
  proof (cases "os_mkdir p d")
    case (Inr d1)
    with "1.prems" have "d' = d1" by (simp add: u)
    with Inr "1.prems"(1) show ?thesis
      by (simp add: os_mkdir_Inr with_dirs_step)
  next
    case (Inl e)
    show ?thesis
    proof (cases "\<exists>q. e = FileNotFoundError q")
      case True
      then obtain q where e: "e = FileNotFoundError q" by blast
      with Inl have na: "\<not> anchor p" by (simp add: os_mkdir_FileNotFound)
      from "1.prems"(2) Inl e have par: "\<not> (\<not> parents \<or> parent p = p)"
        by (auto simp: u split: if_splits)
      from "1.prems"(2) Inl e par obtain d1 where
        d1: "mkdir True True (parent p) d = Inr d1" and d2: "mkdir False exist_ok p d1 = Inr d'"
        by (auto simp: u split: if_splits sum.splits)
      from "1.IH"(1)[OF Inl e par "1.prems"(1) d1] have e1: "d1 = with_dirs (parent p) d" .
      with "1.prems"(1) have "wf_fs d1" by (simp add: wf_with_dirs)
      from "1.IH"(2)[OF Inl e par d1 this d2] have "d' = with_dirs p d1" .
      with e1 na show ?thesis by (simp add: with_dirs_parent)
    next
      case False
      with "1.prems"(2) Inl have "d p = Some Dir" "d' = d"
        by (auto simp: u split: if_splits)
      with "1.prems"(1) show ?thesis by (simp add: with_dirs_existing)
    qed
  qed
qed

lemma mkdir_plain: "mkdir False False p d = os_mkdir p d"
  by (subst mkdir_unfold) (auto split: sum.splits)

lemma path_mkdir_False_Inr:
  "path_mkdir False p s = (Inr u, s') \<longleftrightarrow>
     \<not> anchor p \<and> disk s (parent p) = Some Dir \<and> disk s p = None \<and>
     s' = s\<lparr>disk := (disk s)(p \<mapsto> Dir)\<rparr>"
proof (cases "os_mkdir p (disk s)")
  case (Inl e)
  then have "\<not> (\<not> anchor p \<and> disk s (parent p) = Some Dir \<and> disk s p = None)"
    using os_mkdir_Inr[of p "disk s" "(disk s)(p \<mapsto> Dir)"] by auto
  with Inl show ?thesis by (auto simp: path_mkdir_def mkdir_plain)
next
  case (Inr d')
  then have "\<not> anchor p \<and> disk s (parent p) = Some Dir \<and> disk s p = None \<and> d' = (disk s)(p \<mapsto> Dir)"
    by (simp add: os_mkdir_Inr)
  with Inr show ?thesis by (auto simp: path_mkdir_def mkdir_plain)
qed

lemma path_mkdir_True_Inr:
  "wf_fs (disk s) \<Longrightarrow> path_mkdir True p s = (Inr u, s') \<Longrightarrow>
     s' = s\<lparr>disk := with_dirs p (disk s)\<rparr>"
  by (auto simp: path_mkdir_def split: sum.splits dest: mkdir_result)

lemma open_write_Inr:
  "open_write p c s = (Inr u, s') \<longleftrightarrow>
     disk s p \<noteq> Some Dir \<and> disk s (parent p) = Some Dir \<and>
     s' = s\<lparr>disk := (disk s)(p \<mapsto> File c)\<rparr>"
  by (auto simp: open_write_def split: option.splits node.splits)

lemma write_file_Inr:
  "write_file p c s = (Inr u, s') \<longleftrightarrow>
     disk s p \<noteq> Some Dir \<and> disk s (parent p) = Some Dir \<and>
     s' = s\<lparr>disk := (disk s)(p \<mapsto> File c), log := log s @ [(INFO, ''Created '' @ str_path p)]\<rparr>"
  by (auto simp: write_file_def bind_io_Inr_iff open_write_Inr logging_info_def)

lemma rmtree_Inr:
  "rmtree p s = (Inr u, s') \<longleftrightarrow>
     disk s p = Some Dir \<and> \<not> anchor p \<and>
     s' = s\<lparr>disk := (\<lambda>q. if inside p q then None else disk s q)\<rparr>"
  by (auto simp: rmtree_def split: option.splits node.splits)

lemma inside_prefix: "p \<noteq> [] \<Longrightarrow> inside p q = prefix p q"
  by (simp add: inside_def)

lemma wf_cleared:
  assumes "wf_fs d" "\<not> anchor pd"
  shows "wf_fs (cleared pd d)"
  unfolding wf_fs_def
proof (intro conjI allI impI)
  fix q assume a: "anchor q"
  have "\<not> prefix pd q"
  proof
    assume "prefix pd q"
    with a assms(2) show False
      by (auto simp: anchor_def append_eq_Cons_conv elim!: prefixE)
  qed
  with a assms(1) show "cleared pd d q = Some Dir"
    by (simp add: cleared_def wf_anchor)
next
  fix q assume a: "cleared pd d q \<noteq> None"
  then have n: "\<not> prefix pd q" "d q \<noteq> None" by (auto simp: cleared_def split: if_splits)
  have "\<not> prefix pd (parent q)"
  proof
    assume "prefix pd (parent q)"
    then have "prefix pd q"
      by (auto simp: parent_def split: if_splits intro: prefix_order.trans[OF _ prefixeq_butlast])
    with n show False by simp
  qed
  with wf_parent[OF assms(1) n(2)] show "cleared pd d (parent q) = Some Dir"
    by (simp add: cleared_def)
qed

lemma cleared_missing:
  assumes "wf_fs d" "d pd = None"
  shows "cleared pd d = d"
proof (rule ext)
  fix q
  show "cleared pd d q = d q"
    using wf_nothing_below[OF assms(1), of pd q] assms(2)
    by (cases "q = pd") (auto simp: cleared_def strict_prefix_def)
qed

lemma wf_not_anchor: "wf_fs d \<Longrightarrow> d p = None \<Longrightarrow> \<not> anchor p"
  by (auto simp: wf_fs_def)

lemma create_directories_existing:
  assumes "disk s pd \<noteq> None"
  shows "create_directories pd t s =
     (case rmtree pd (s\<lparr>log := log s @ [(INFO, ''Removing existing project directory: '' @ str_path pd)]\<rparr>) of
        (Inl e, s0) \<Rightarrow> (Inl e, s0)
      | (Inr u, s0) \<Rightarrow> create_directories pd t s0)"
proof (cases "rmtree pd (s\<lparr>log := log s @ [(INFO, ''Removing existing project directory: '' @ str_path pd)]\<rparr>)")
  case (Pair r s0)
  show ?thesis
  proof (cases r)
    case (Inl e)
    with Pair assms show ?thesis
      by (simp add: create_directories_def exists_def bind_io_def logging_info_def)
  next
    case (Inr u)
    with Pair have "disk s0 pd = None"
      by (auto simp: rmtree_Inr inside_def)
    with Pair Inr assms show ?thesis
      by (simp add: create_directories_def exists_def bind_io_def return_def logging_info_def)
  qed
qed

lemma create_directories_fresh:
  assumes wf: "wf_fs (disk s)" and fresh: "disk s pd = None"
    and run: "create_directories pd (pd @ [''templates'']) s = (Inr u, s')"
  shows "s' = s\<lparr>disk := reset pd (disk s), log := log s @ created_log pd\<rparr>"
proof -
  from wf fresh have na: "\<not> anchor pd" by (rule wf_not_anchor)
  from run fresh obtain s1 where
    s1: "path_mkdir True pd s = (Inr (), s1)" and
    rest: "bind_io (path_mkdir False (pd @ [''modules''])) (\<lambda>_.
     bind_io (path_mkdir False (pd @ [''services''])) (\<lambda>_.
     bind_io (path_mkdir False (pd @ [''caching''])) (\<lambda>_.
     bind_io (path_mkdir False (pd @ [''tests''])) (\<lambda>_.
     bind_io (path_mkdir False (pd @ [''templates''])) (\<lambda>_.
     bind_io (logging_info ''Created project directory structure'') (\<lambda>_.
     write_files (template_files (pd @ [''templates''])))))))) s1 = (Inr u, s')"
    by (auto simp: create_directories_def exists_def return_def bind_io_Inr_iff)
  from path_mkdir_True_Inr[OF wf s1] have e1: "s1 = s\<lparr>disk := with_dirs pd (disk s)\<rparr>" .
  from rest have e2: "s' = s1\<lparr>disk := (disk s1)
        (pd @ [''modules''] \<mapsto> Dir, pd @ [''services''] \<mapsto> Dir, pd @ [''caching''] \<mapsto> Dir,
         pd @ [''tests''] \<mapsto> Dir, pd @ [''templates''] \<mapsto> Dir,
         pd @ [''templates'', ''setup_template.py''] \<mapsto> File setup_content,
         pd @ [''templates'', ''redzer_template.spec''] \<mapsto> File redzer_spec_content,
         pd @ [''templates'', ''redzer_installer_template.iss''] \<mapsto> File redzer_installer_content),
      log := log s1 @ created_log pd\<rparr>"
    by (auto simp: bind_io_Inr_iff path_mkdir_False_Inr write_file_Inr template_files_def
        return_def created_log_def)
  have below: "\<And>r. r \<noteq> [] \<Longrightarrow> disk s (pd @ r) = None"
    using wf_nothing_below[OF wf, of pd] fresh by (simp add: strict_prefix_def)
  have "(with_dirs pd (disk s))
        (pd @ [''modules''] \<mapsto> Dir, pd @ [''services''] \<mapsto> Dir, pd @ [''caching''] \<mapsto> Dir,
         pd @ [''tests''] \<mapsto> Dir, pd @ [''templates''] \<mapsto> Dir,
         pd @ [''templates'', ''setup_template.py''] \<mapsto> File setup_content,
         pd @ [''templates'', ''redzer_template.spec''] \<mapsto> File redzer_spec_content,
         pd @ [''templates'', ''redzer_installer_template.iss''] \<mapsto> File redzer_installer_content)
     = reset pd (disk s)" (is "?l = ?r")
  proof (rule ext)
    fix q
    show "?l q = ?r q"
    proof (cases "prefix pd q")
      case True
      then obtain r where q: "q = pd @ r" by (auto elim: prefixE)
      show ?thesis
      proof (cases "r = []")
        case True
        with q show ?thesis by (simp add: reset_def skeleton_def with_dirs_def)
      next
        case False
        with q below[of r] show ?thesis
          by (simp add: reset_def skeleton_def with_dirs_def)
      qed
    next
      case False
      then have "\<And>r. q \<noteq> pd @ r" by auto
      with False show ?thesis by (simp add: reset_def with_dirs_def)
    qed
  qed
  with e1 e2 show ?thesis by simp
qed

lemma reset_cleared: "reset pd (cleared pd d) = reset pd d"
  by (auto simp: reset_def cleared_def fun_eq_iff)

lemma reset_below [simp]: "reset pd d (pd @ r) = skeleton r"
  by (simp add: reset_def)

lemma reset_at [simp]: "reset pd d pd = Some Dir"
  by (simp add: reset_def skeleton_def)

lemma create_directories_Inr:
  assumes wf: "wf_fs (disk s)"
    and run: "create_directories pd (pd @ [''templates'']) s = (Inr u, s')"
  shows "\<not> anchor pd \<and> (disk s pd = None \<or> disk s pd = Some Dir) \<and>
     s' = s\<lparr>disk := reset pd (disk s),
            log := log s @
              (if disk s pd = None then []
               else [(INFO, ''Removing existing project directory: '' @ str_path pd)]) @
              created_log pd\<rparr>"
proof (cases "disk s pd = None")
  case True
  with create_directories_fresh[OF wf True run] wf_not_anchor[OF wf True] show ?thesis by simp
next
  case False
  define sl where "sl = s\<lparr>log := log s @ [(INFO, ''Removing existing project directory: '' @ str_path pd)]\<rparr>"
  from run create_directories_existing[OF False, of "pd @ [''templates'']"]
  obtain u0 s0 where rm: "rmtree pd sl = (Inr u0, s0)"
    and run0: "create_directories pd (pd @ [''templates'']) s0 = (Inr u, s')"
    by (auto simp: sl_def split: prod.splits sum.splits)
  from rm have dir: "disk s pd = Some Dir" and na: "\<not> anchor pd"
    and s0: "s0 = sl\<lparr>disk := cleared pd (disk s)\<rparr>"
    by (auto simp: rmtree_Inr sl_def cleared_def inside_def anchor_def cong: if_cong)
  have wf0: "wf_fs (disk s0)" using s0 wf na by (simp add: wf_cleared)
  have fresh0: "disk s0 pd = None" using s0 by (simp add: cleared_def)
  from create_directories_fresh[OF wf0 fresh0 run0] s0 dir na show ?thesis
    by (simp add: reset_cleared sl_def)
qed

lemma wf_reset:
  assumes wf: "wf_fs d" and na: "\<not> anchor pd"
  shows "wf_fs (reset pd d)"
  unfolding wf_fs_def
proof (intro conjI allI impI)
  fix q assume a: "anchor q"
  have "\<not> prefix pd q"
  proof
    assume "prefix pd q"
    with a na show False
      by (auto simp: anchor_def append_eq_Cons_conv elim!: prefixE)
  qed
  with a wf show "reset pd d q = Some Dir"
    by (simp add: reset_def wf_anchor)
next
  fix q assume a: "reset pd d q \<noteq> None"
  show "reset pd d (parent q) = Some Dir"
  proof (cases "prefix pd q")
    case True
    then obtain r where q: "q = pd @ r" by (auto elim: prefixE)
    show ?thesis
    proof (cases r rule: rev_cases)
      case Nil
      from na have "butlast pd \<noteq> pd"
        by (cases pd rule: rev_cases) (auto simp: anchor_def)
      with Nil q na have "prefix (parent q) pd" "parent q \<noteq> pd"
        by (auto simp: parent_def prefixeq_butlast)
      then show ?thesis by (auto simp: reset_def dest: prefix_order.antisym)
    next
      case (snoc r' x)
      with q a have sk: "skeleton (r' @ [x]) \<noteq> None" by simp
      from q snoc have "\<not> anchor q"
        using na by (auto simp: anchor_def append_eq_Cons_conv)
      with q snoc have pq: "parent q = pd @ r'" by (simp add: parent_def butlast_append)
      from sk have "skeleton r' = Some Dir"
        by (auto simp: skeleton_def split: if_splits)
      with pq show ?thesis by simp
    qed
  next
    case False
    have np: "\<not> prefix pd (parent q)"
    proof
      assume "prefix pd (parent q)"
      then have "prefix pd q"
        by (auto simp: parent_def split: if_splits intro: prefix_order.trans[OF _ prefixeq_butlast])
      with False show False by simp
    qed
    show ?thesis
    proof (cases "prefix q pd")
      case True
      then have "prefix (parent q) pd"
        by (auto simp: parent_def intro: prefix_order.trans[OF prefixeq_butlast])
      with np show ?thesis by (simp add: reset_def)
    next
      case nq: False
      with False a have "d q \<noteq> None" by (simp add: reset_def)
      from wf_parent[OF wf this] np show ?thesis by (simp add: reset_def)
    qed
  qed
qed

lemma mkdir_total:
  "wf_fs d \<Longrightarrow> d p = None \<Longrightarrow> (\<forall>a c. strict_prefix a p \<longrightarrow> d a \<noteq> Some (File c)) \<Longrightarrow>
     mkdir True exist_ok p d = Inr (with_dirs p d)"
proof (induction p arbitrary: exist_ok rule: rev_induct)
  case Nil
  then show ?case by (simp add: wf_fs_def)
next
  case (snoc x xs)
  let ?p = "xs @ [x]"
  from snoc.prems(1,2) have na: "\<not> anchor ?p" by (rule wf_not_anchor)
  then have par: "parent ?p = xs" by (simp add: parent_def)
  note u = mkdir_unfold[of True exist_ok ?p d]
  show ?case
  proof (cases "d xs")
    case None
    with na par have om: "os_mkdir ?p d = Inl (FileNotFoundError ?p)"
      by (simp add: os_mkdir_FileNotFound)
    have "\<forall>a c. strict_prefix a xs \<longrightarrow> d a \<noteq> Some (File c)"
      using snoc.prems(3) by (auto simp: strict_prefix_def)
    from snoc.IH[OF snoc.prems(1) None this, of True]
    have m1: "mkdir True True xs d = Inr (with_dirs xs d)" .
    have wf1: "wf_fs (with_dirs xs d)" using snoc.prems(1) by (rule wf_with_dirs)
    have "os_mkdir ?p (with_dirs xs d) = Inr ((with_dirs xs d)(?p \<mapsto> Dir))"
      using na par snoc.prems(2) by (simp add: os_mkdir_Inr with_dirs_def)
    moreover have "(with_dirs xs d)(?p \<mapsto> Dir) = with_dirs ?p (with_dirs xs d)"
      using with_dirs_step[OF wf1 na] par by (simp add: with_dirs_def)
    ultimately have m2: "mkdir False exist_ok ?p (with_dirs xs d) = Inr (with_dirs ?p d)"
      using with_dirs_parent[OF na, of d] par
      by (subst mkdir_unfold) simp
    from om m1 m2 par show ?thesis
      by (subst mkdir_unfold) simp
  next
    case (Some n)
    show ?thesis
    proof (cases n)
      case (File c)
      with Some snoc.prems(3) show ?thesis by (auto simp: strict_prefix_def)
    next
      case Dir
      with Some na par snoc.prems(2) have "os_mkdir ?p d = Inr (d(?p \<mapsto> Dir))"
        by (simp add: os_mkdir_Inr)
      moreover have "d(?p \<mapsto> Dir) = with_dirs ?p d"
        using with_dirs_step[OF snoc.prems(1) na] par Some Dir by simp
      ultimately show ?thesis by (subst mkdir_unfold) simp
    qed
  qed
qed

lemma path_mkdir_False_ok:
  "\<not> anchor p \<Longrightarrow> disk s (parent p) = Some Dir \<Longrightarrow> disk s p = None \<Longrightarrow>
     path_mkdir False p s = (Inr (), s\<lparr>disk := (disk s)(p \<mapsto> Dir)\<rparr>)"
  by (simp add: path_mkdir_False_Inr)

lemma write_file_ok:
  "disk s p \<noteq> Some Dir \<Longrightarrow> disk s (parent p) = Some Dir \<Longrightarrow>
     write_file p c s = (Inr (), s\<lparr>disk := (disk s)(p \<mapsto> File c),
                                   log := log s @ [(INFO, ''Created '' @ str_path p)]\<rparr>)"
  by (simp add: write_file_Inr)

lemma parent_snoc2 [simp]: "parent (p @ [x, y]) = p @ [x]"
  by (simp add: parent_def anchor_def butlast_append)

lemma create_directories_fresh_total:
  assumes wf: "wf_fs (disk s)" and fresh: "disk s pd = None"
    and anc: "\<forall>a c. strict_prefix a pd \<longrightarrow> disk s a \<noteq> Some (File c)"
  shows "\<exists>s'. create_directories pd (pd @ [''templates'']) s = (Inr (), s')"
proof -
  from wf fresh have na: "\<not> anchor pd" by (rule wf_not_anchor)
  have below: "\<And>r. r \<noteq> [] \<Longrightarrow> disk s (pd @ r) = None"
    using wf_nothing_below[OF wf, of pd] fresh by (simp add: strict_prefix_def)
  have m: "path_mkdir True pd s = (Inr (), s\<lparr>disk := with_dirs pd (disk s)\<rparr>)"
    using mkdir_total[OF wf fresh anc, of False] by (simp add: path_mkdir_def)
  have pa: "\<And>x. parent (pd @ [x]) = pd"
    using na by (auto simp: parent_def anchor_def)
  have nan: "\<And>x. \<not> anchor (pd @ [x])"
    using na by (auto simp: anchor_def)
  show ?thesis
    using fresh below
    by (simp add: create_directories_def exists_def return_def m
        bind_io_def path_mkdir_False_ok write_file_ok pa nan with_dirs_def template_files_def
        logging_info_def)
qed


lemma create_directories_total:
  assumes wf: "wf_fs (disk s)" and na: "\<not> anchor pd"
    and dir: "disk s pd = None \<or> disk s pd = Some Dir"
    and anc: "\<forall>a c. strict_prefix a pd \<longrightarrow> disk s a \<noteq> Some (File c)"
  shows "\<exists>s'. create_directories pd (pd @ [''templates'']) s = (Inr (), s')"
proof (cases "disk s pd = None")
  case True
  from create_directories_fresh_total[OF wf True anc] show ?thesis .
next
  case False
  with dir have d: "disk s pd = Some Dir" by simp
  define sl where "sl = s\<lparr>log := log s @ [(INFO, ''Removing existing project directory: '' @ str_path pd)]\<rparr>"
  define s0 where "s0 = sl\<lparr>disk := cleared pd (disk s)\<rparr>"
  have rm: "rmtree pd sl = (Inr (), s0)"
    using d na by (auto simp: rmtree_Inr sl_def s0_def cleared_def inside_def anchor_def cong: if_cong)
  have wf0: "wf_fs (disk s0)" using wf na by (simp add: s0_def wf_cleared)
  have fresh0: "disk s0 pd = None" by (simp add: s0_def cleared_def)
  have anc0: "\<forall>a c. strict_prefix a pd \<longrightarrow> disk s0 a \<noteq> Some (File c)"
    using anc by (auto simp: s0_def cleared_def)
  from create_directories_fresh_total[OF wf0 fresh0 anc0] obtain s' where
    "create_directories pd (pd @ [''templates'']) s0 = (Inr (), s')" by blast
  with create_directories_existing[OF False, of "pd @ [''templates'']"] rm show ?thesis
    by (simp add: sl_def)
qed

lemma wf_existing_no_file_above:
  "wf_fs d \<Longrightarrow> d p \<noteq> None \<Longrightarrow> \<forall>a c. strict_prefix a p \<longrightarrow> d a \<noteq> Some (File c)"
  using wf_ancestors by fastforce

lemma skeleton_children:
  "{name. skeleton [name] \<noteq> None} = {''modules'', ''services'', ''caching'', ''tests'', ''templates''}"
  by (auto simp: skeleton_def)

lemma wf_demo_disk: "wf_fs demo_disk"
  by (auto simp: wf_fs_def demo_disk_def anchor_def parent_def split: if_splits)

lemma wf_used_disk: "wf_fs used_disk"
  by (auto simp: wf_fs_def used_disk_def demo_disk_def anchor_def parent_def split: if_splits)

lemma butlast_neq_self: "p \<noteq> [] \<Longrightarrow> butlast p \<noteq> p"
  by (cases p rule: rev_cases) auto

lemma wf_add_leaf:
  assumes "wf_fs d" "\<not> anchor p" "d (parent p) = Some Dir" "\<forall>q. strict_prefix p q \<longrightarrow> d q = None"
  shows "wf_fs (d(p \<mapsto> n))"
  unfolding wf_fs_def
proof (intro conjI allI impI)
  fix q assume "anchor q"
  with assms(1,2) show "(d(p \<mapsto> n)) q = Some Dir" by (auto simp: wf_anchor)
next
  fix q assume a: "(d(p \<mapsto> n)) q \<noteq> None"
  show "(d(p \<mapsto> n)) (parent q) = Some Dir"
  proof (cases "q = p")
    case True
    with assms(2,3) butlast_neq_self[of p] show ?thesis by (auto simp: parent_def anchor_def)
  next
    case False
    with a have dq: "d q \<noteq> None" by simp
    have "parent q \<noteq> p"
    proof
      assume e: "parent q = p"
      with False have "strict_prefix p q"
        by (auto simp: parent_def strict_prefix_def prefixeq_butlast split: if_splits)
      with assms(4) dq show False by simp
    qed
    with wf_parent[OF assms(1) dq] show ?thesis by simp
  qed
qed

subsection \<open>The templates and their copies\<close>

lemma universal_newlines_id: "CHR 0x0D \<notin> set cs \<Longrightarrow> universal_newlines cs = cs"
  by (induction cs rule: universal_newlines.induct) auto

lemma setup_content_no_cr: "CHR 0x0D \<notin> set setup_content"
  by (simp add: setup_content_def)

lemma redzer_spec_content_no_cr: "CHR 0x0D \<notin> set redzer_spec_content"
  by (simp add: redzer_spec_content_def)

lemma redzer_installer_content_no_cr: "CHR 0x0D \<notin> set redzer_installer_content"
  by (simp add: redzer_installer_content_def)

lemma read_back [simp]:
  "universal_newlines setup_content = setup_content"
  "universal_newlines redzer_spec_content = redzer_spec_content"
  "universal_newlines redzer_installer_content = redzer_installer_content"
  by (simp_all add: universal_newlines_id setup_content_no_cr redzer_spec_content_no_cr
      redzer_installer_content_no_cr)

lemma lift_iff [simp]: "lift r s = (r', s') \<longleftrightarrow> r = r' \<and> s' = s"
  by (auto simp: lift_def)

lemma return_iff [simp]: "return x s = (r, s') \<longleftrightarrow> r = Inr x \<and> s' = s"
  by (auto simp: return_def)

lemma Path_of_Inr: "Path_of v = Inr p \<longleftrightarrow> (\<exists>s. v = YStr s \<and> p = Path s)"
  by (cases v) (auto simp: Path_of_def)

lemma truediv_Inr: "truediv p v = Inr q \<longleftrightarrow> (\<exists>s. v = YStr s \<and> q = joinpath p s)"
  by (cases v) (auto simp: truediv_def)

lemma open_read_Inr:
  "open_read p s = (Inr text, s') \<longleftrightarrow> (\<exists>c. disk s p = Some (File c) \<and> text = universal_newlines c) \<and> s' = s"
  by (auto simp: open_read_def split: option.splits node.splits)

lemma write_files_templates:
  "write_files (template_files t) s = (Inr u, s') \<Longrightarrow>
     s' = s\<lparr>disk := (disk s)
            (t @ [''setup_template.py''] \<mapsto> File setup_content,
             t @ [''redzer_template.spec''] \<mapsto> File redzer_spec_content,
             t @ [''redzer_installer_template.iss''] \<mapsto> File redzer_installer_content),
          log := log s @ [(INFO, ''Created '' @ str_path (t @ [''setup_template.py''])),
                          (INFO, ''Created '' @ str_path (t @ [''redzer_template.spec''])),
                          (INFO, ''Created '' @ str_path (t @ [''redzer_installer_template.iss'']))]\<rparr>"
  by (auto simp: template_files_def bind_io_Inr_iff write_file_Inr)

lemma create_directories_templates:
  assumes "create_directories pd t s = (Inr u, s')"
  shows "disk s' (t @ [''setup_template.py'']) = Some (File setup_content) \<and>
         disk s' (t @ [''redzer_template.spec'']) = Some (File redzer_spec_content) \<and>
         disk s' (t @ [''redzer_installer_template.iss'']) = Some (File redzer_installer_content)"
proof -
  from assms obtain s7 where "write_files (template_files t) s7 = (Inr u, s')"
    unfolding create_directories_def bind_io_Inr_iff by blast
  from write_files_templates[OF this] show ?thesis by simp
qed


text \<open>The steps of a successful write_project_files.\<close>

lemma write_project_files_Inr:
  assumes "write_project_files config s = (Inr (pd, vd, sp, ip), s')"
  shows "\<exists>name dir venv s1.
           subscript config ''project_name'' = Inr (YStr name) \<and>
           subscript config ''project_dir'' = Inr (YStr dir) \<and>
           subscript config ''venv_dir'' = Inr (YStr venv) \<and>
           pd = joinpath (Path dir) name \<and> vd = joinpath pd venv \<and>
           sp = pd @ [''redzer.spec''] \<and> ip = pd @ [''redzer_installer.iss''] \<and>
           create_directories pd (pd @ [''templates''])
             (s\<lparr>log := log s @ [(INFO, ''Initializing project...'')]\<rparr>) = (Inr (), s1) \<and>
           s' = s1\<lparr>disk := (disk s1)
                   (pd @ [''setup.py''] \<mapsto> File setup_content,
                    pd @ [''redzer.spec''] \<mapsto> File redzer_spec_content,
                    pd @ [''redzer_installer.iss''] \<mapsto> File redzer_installer_content),
                 log := log s1 @ [(INFO, ''Created '' @ str_path (pd @ [''setup.py''])),
                                  (INFO, ''Created '' @ str_path (pd @ [''redzer.spec''])),
                                  (INFO, ''Created '' @ str_path (pd @ [''redzer_installer.iss'']))]\<rparr>"
proof -
  from assms obtain name dir venv s1 c1 s1a s2 c2 s2a s3 c3 s3a where
    look: "subscript config ''project_name'' = Inr (YStr name)"
      "subscript config ''project_dir'' = Inr (YStr dir)"
      "subscript config ''venv_dir'' = Inr (YStr venv)"
    and pd: "pd = joinpath (Path dir) name" "vd = joinpath pd venv"
    and out: "sp = pd @ [''redzer.spec'']" "ip = pd @ [''redzer_installer.iss'']"
    and cd: "create_directories pd (pd @ [''templates''])
             (s\<lparr>log := log s @ [(INFO, ''Initializing project...'')]\<rparr>) = (Inr (), s1)"
    and r1: "open_read (pd @ [''templates'', ''setup_template.py'']) s1 = (Inr c1, s1a)"
    and w1: "write_file (pd @ [''setup.py'']) c1 s1a = (Inr (), s2)"
    and r2: "open_read (pd @ [''templates'', ''redzer_template.spec'']) s2 = (Inr c2, s2a)"
    and w2: "write_file (pd @ [''redzer.spec'']) c2 s2a = (Inr (), s3)"
    and r3: "open_read (pd @ [''templates'', ''redzer_installer_template.iss'']) s3 = (Inr c3, s3a)"
    and w3: "write_file (pd @ [''redzer_installer.iss'']) c3 s3a = (Inr (), s')"
    by (auto simp: write_project_files_def Let_def bind_io_Inr_iff Path_of_Inr truediv_Inr
        read_file_def)
  from create_directories_templates[OF cd] have tm:
    "disk s1 (pd @ [''templates'', ''setup_template.py'']) = Some (File setup_content)"
    "disk s1 (pd @ [''templates'', ''redzer_template.spec'']) = Some (File redzer_spec_content)"
    "disk s1 (pd @ [''templates'', ''redzer_installer_template.iss'']) = Some (File redzer_installer_content)"
    by simp_all
  from r1 tm have e1: "c1 = setup_content" "s1a = s1" by (auto simp: open_read_Inr)
  from w1 e1 have s2: "s2 = s1\<lparr>disk := (disk s1)(pd @ [''setup.py''] \<mapsto> File setup_content),
      log := log s1 @ [(INFO, ''Created '' @ str_path (pd @ [''setup.py'']))]\<rparr>"
    by (simp add: write_file_Inr)
  from r2 tm s2 have e2: "c2 = redzer_spec_content" "s2a = s2" by (auto simp: open_read_Inr)
  from w2 e2 have s3: "s3 = s2\<lparr>disk := (disk s2)(pd @ [''redzer.spec''] \<mapsto> File redzer_spec_content),
      log := log s2 @ [(INFO, ''Created '' @ str_path (pd @ [''redzer.spec'']))]\<rparr>"
    by (simp add: write_file_Inr)
  from r3 tm s2 s3 have e3: "c3 = redzer_installer_content" "s3a = s3" by (auto simp: open_read_Inr)
  from w3 e3 have s': "s' = s3\<lparr>disk := (disk s3)(pd @ [''redzer_installer.iss''] \<mapsto> File redzer_installer_content),
      log := log s3 @ [(INFO, ''Created '' @ str_path (pd @ [''redzer_installer.iss'']))]\<rparr>"
    by (simp add: write_file_Inr)
  from s2 s3 s' have "s' = s1\<lparr>disk := (disk s1)
                   (pd @ [''setup.py''] \<mapsto> File setup_content,
                    pd @ [''redzer.spec''] \<mapsto> File redzer_spec_content,
                    pd @ [''redzer_installer.iss''] \<mapsto> File redzer_installer_content),
                 log := log s1 @ [(INFO, ''Created '' @ str_path (pd @ [''setup.py''])),
                                  (INFO, ''Created '' @ str_path (pd @ [''redzer.spec''])),
                                  (INFO, ''Created '' @ str_path (pd @ [''redzer_installer.iss'']))]\<rparr>"
    by simp
  with look pd out cd show ?thesis by blast
qed

lemma parent_snoc [simp]: "p \<noteq> [] \<Longrightarrow> parent (p @ [x]) = p"
  by (simp add: parent_def)

lemma write_project_files_total:
  assumes look: "subscript config ''project_name'' = Inr (YStr name)"
      "subscript config ''project_dir'' = Inr (YStr dir)"
      "subscript config ''venv_dir'' = Inr (YStr venv)"
    and pd: "pd = joinpath (Path dir) name"
    and wf: "wf_fs (disk s)" and na: "\<not> anchor pd"
    and dir: "disk s pd = None \<or> disk s pd = Some Dir"
    and anc: "\<forall>a c. strict_prefix a pd \<longrightarrow> disk s a \<noteq> Some (File c)"
  shows "\<exists>s'. write_project_files config s =
           (Inr (pd, joinpath pd venv, pd @ [''redzer.spec''], pd @ [''redzer_installer.iss'']), s')"
proof -
  define sl where "sl = s\<lparr>log := log s @ [(INFO, ''Initializing project...'')]\<rparr>"
  have "\<exists>s1. create_directories pd (pd @ [''templates'']) sl = (Inr (), s1)"
    by (rule create_directories_total) (use wf na dir anc in \<open>simp_all add: sl_def\<close>)
  then obtain s1 where cd: "create_directories pd (pd @ [''templates'']) sl = (Inr (), s1)" ..
  from create_directories_Inr[OF _ cd] wf have d1: "disk s1 = reset pd (disk s)"
    by (simp add: sl_def)
  have below: "\<And>r. disk s1 (pd @ r) = skeleton r" using d1 by simp
  from na have ne: "pd \<noteq> []" by (auto simp: anchor_def)
  have t1: "disk s1 (pd @ [''templates'', ''setup_template.py'']) = Some (File setup_content)"
    and t2: "disk s1 (pd @ [''templates'', ''redzer_template.spec'']) = Some (File redzer_spec_content)"
    and t3: "disk s1 (pd @ [''templates'', ''redzer_installer_template.iss'']) = Some (File redzer_installer_content)"
    and f1: "disk s1 (pd @ [''setup.py'']) = None"
    and f2: "disk s1 (pd @ [''redzer.spec'']) = None"
    and f3: "disk s1 (pd @ [''redzer_installer.iss'']) = None"
    and f0: "disk s1 pd = Some Dir"
    using below[of "[]"] by (simp_all add: below skeleton_def)
  show ?thesis
    using look pd cd[unfolded sl_def] t1 t2 t3 f1 f2 f3 f0 ne
    by (simp add: write_project_files_def Let_def bind_io_def read_file_def open_read_def
        write_file_ok logging_info_def return_def lift_def Path_of_def truediv_def)
qed

lemma write_project_files_tree:
  assumes "wf_fs (disk s)"
    and "write_project_files config s = (Inr (pd, vd, sp, ip), s')"
  shows "disk s' (pd @ r) = project_tree r"
proof -
  from write_project_files_Inr[OF assms(2)] obtain s1 where
    cd: "create_directories pd (pd @ [''templates''])
             (s\<lparr>log := log s @ [(INFO, ''Initializing project...'')]\<rparr>) = (Inr (), s1)"
    and s': "disk s' = (disk s1)
                   (pd @ [''setup.py''] \<mapsto> File setup_content,
                    pd @ [''redzer.spec''] \<mapsto> File redzer_spec_content,
                    pd @ [''redzer_installer.iss''] \<mapsto> File redzer_installer_content)"
    by auto
  from create_directories_Inr[OF _ cd] assms(1) have "disk s1 (pd @ r) = skeleton r"
    by simp
  with s' show ?thesis by (simp add: project_tree_def)
qed

lemma demo_write_project_files:
  "\<exists>s'. write_project_files demo_config demo_world =
          (Inr ([''work'', ''demo''], [''work'', ''demo'', ''venv''],
                [''work'', ''demo'', ''redzer.spec''], [''work'', ''demo'', ''redzer_installer.iss'']), s')"
proof -
  have wf: "wf_fs (disk demo_world)" by (simp add: demo_world_def wf_demo_disk)
  have pd: "[''work'', ''demo''] = joinpath (Path ''work'') ''demo''"
    by (simp add: joinpath_def Path_def root_of_def is_absolute_def)
  have vd: "joinpath [''work'', ''demo''] ''venv'' = [''work'', ''demo'', ''venv'']"
    by (simp add: joinpath_def Path_def root_of_def is_absolute_def)
  have "\<exists>s'. write_project_files demo_config demo_world =
           (Inr ([''work'', ''demo''], joinpath [''work'', ''demo''] ''venv'',
                 [''work'', ''demo''] @ [''redzer.spec''], [''work'', ''demo''] @ [''redzer_installer.iss'']), s')"
    by (rule write_project_files_total[OF _ _ _ pd wf])
       (auto simp: demo_config_def subscript_def demo_world_def demo_disk_def anchor_def
          strict_prefix_def prefix_Cons)
  then show ?thesis by (simp add: vd)
qed

lemma demo_disk_write_project_files:
  assumes "disk s = demo_disk"
  shows "\<exists>s'. write_project_files demo_config s =
          (Inr ([''work'', ''demo''], [''work'', ''demo'', ''venv''],
                [''work'', ''demo'', ''redzer.spec''], [''work'', ''demo'', ''redzer_installer.iss'']), s')"
proof -
  have wf: "wf_fs (disk s)" by (simp add: assms wf_demo_disk)
  have pd: "[''work'', ''demo''] = joinpath (Path ''work'') ''demo''"
    by (simp add: joinpath_def Path_def root_of_def is_absolute_def)
  have vd: "joinpath [''work'', ''demo''] ''venv'' = [''work'', ''demo'', ''venv'']"
    by (simp add: joinpath_def Path_def root_of_def is_absolute_def)
  have "\<exists>s'. write_project_files demo_config s =
           (Inr ([''work'', ''demo''], joinpath [''work'', ''demo''] ''venv'',
                 [''work'', ''demo''] @ [''redzer.spec''], [''work'', ''demo''] @ [''redzer_installer.iss'']), s')"
    by (rule write_project_files_total[OF _ _ _ pd wf])
       (auto simp: demo_config_def subscript_def assms demo_disk_def anchor_def
          strict_prefix_def prefix_Cons)
  then show ?thesis by (simp add: vd)
qed

section \<open>The commands\<close>

lemma run_command_result:
  "run_command sh command env s = (r, s') \<Longrightarrow>
     calls s' = calls s @ [(command, env)] \<and> environ s' = environ s"
  by (auto simp: run_command_def subprocess_run_def bind_io_def lift_def logging_info_def
      logging_error_def split: prod.splits sum.splits if_splits)

lemma run_command_Inr:
  "run_command sh command env s = (Inr u, s') \<Longrightarrow>
     calls s' = calls s @ [(command, env)] \<and> environ s' = environ s"
  by (rule run_command_result)

lemma run_command_Inr_world:
  "run_command sh command env s = (Inr u, s') \<Longrightarrow>
     (\<exists>r. sh command (case env of None \<Rightarrow> environ s | Some e \<Rightarrow> e) (disk s) = (r, disk s')) \<and>
     environ s' = environ s"
  by (auto simp: run_command_def subprocess_run_def bind_io_def lift_def logging_info_def
      logging_error_def split: prod.splits sum.splits if_splits)

lemma subscript_requirements:
  "(case subscript config key of Inl e \<Rightarrow> Inl e | Inr v \<Rightarrow> truediv p v) = Inr q \<longleftrightarrow>
     (\<exists>req. subscript config key = Inr (YStr req) \<and> q = joinpath p req)"
  by (auto simp: truediv_Inr split: sum.splits)

lemma run_build_commands_Inr:
  assumes "run_build_commands sh config (pd, vd, sp, ip) s = (Inr u, s')"
  shows "\<exists>req old.
     subscript config ''requirements_file'' = Inr (YStr req) \<and> environ s ''PATH'' = Some old \<and>
     calls s' = calls s @
       [(''python -m venv '' @ str_path vd, None),
        (str_path (vd @ [''Scripts'', ''activate'']) @ '' && '' @
           str_path (vd @ [''Scripts'', ''pip'']) @ '' install -r '' @ str_path (joinpath pd req),
         Some ((environ s)(''VIRTUAL_ENV'' \<mapsto> str_path vd,
                           ''PATH'' \<mapsto> str_path (vd @ [''Scripts'']) @ '';'' @ old))),
        (str_path (vd @ [''Scripts'', ''activate'']) @ '' && '' @
           str_path (vd @ [''Scripts'', ''pip'']) @ '' install pyinstaller'',
         Some ((environ s)(''VIRTUAL_ENV'' \<mapsto> str_path vd,
                           ''PATH'' \<mapsto> str_path (vd @ [''Scripts'']) @ '';'' @ old))),
        (str_path (vd @ [''Scripts'', ''pyinstaller'']) @ '' '' @ str_path sp,
         Some ((environ s)(''VIRTUAL_ENV'' \<mapsto> str_path vd,
                           ''PATH'' \<mapsto> str_path (vd @ [''Scripts'']) @ '';'' @ old))),
        (''ISCC '' @ str_path ip, None)]"
  using assms
  apply (clarsimp simp: run_build_commands_def Let_def bind_io_Inr_iff truediv_Inr
      split: option.splits)
  apply (auto dest!: run_command_Inr simp: logging_info_def)
  done


lemma keeps_bind:
  "keeps_processes m \<Longrightarrow> (\<And>x. keeps_processes (f x)) \<Longrightarrow> keeps_processes (bind_io m f)"
  unfolding keeps_processes_def bind_io_def
  by (auto split: prod.splits sum.splits)

lemma keeps_simple:
  "keeps_processes (return x)" "keeps_processes (lift r)"
  "keeps_processes (logging_info msg)" "keeps_processes (logging_error msg)"
  "keeps_processes (open_read p)" "keeps_processes (open_write p c)"
  "keeps_processes (rmtree p)" "keeps_processes (path_mkdir parents p)"
  by (auto simp: keeps_processes_def return_def lift_def logging_info_def logging_error_def
      open_read_def open_write_def rmtree_def path_mkdir_def
      split: option.splits node.splits sum.splits if_splits)

lemma keeps_write_file: "keeps_processes (write_file p c)"
  unfolding write_file_def by (intro keeps_bind keeps_simple)

lemma keeps_write_files: "keeps_processes (write_files items)"
  by (induction items) (auto intro!: keeps_bind keeps_write_file keeps_simple)

lemma keeps_conditional_rmtree:
  "keeps_processes (\<lambda>s. if exists pd s then bind_io (logging_info msg) (\<lambda>_. rmtree pd) s
                         else return () s)"
  by (auto simp: keeps_processes_def rmtree_def return_def split: option.splits node.splits if_splits)

lemma keeps_create_directories: "keeps_processes (create_directories pd t)"
  unfolding create_directories_def
  by (intro keeps_bind keeps_simple keeps_write_files keeps_conditional_rmtree)

lemma keeps_write_project_files: "keeps_processes (write_project_files config)"
  unfolding write_project_files_def Let_def read_file_def
  by (intro keeps_bind keeps_simple keeps_create_directories keeps_write_file)

lemma initialize_project_Inr:
  assumes "initialize_project sh config s = (Inr (), s')"
  shows "\<exists>name dir venv req old.
     subscript config ''project_name'' = Inr (YStr name) \<and>
     subscript config ''project_dir'' = Inr (YStr dir) \<and>
     subscript config ''venv_dir'' = Inr (YStr venv) \<and>
     subscript config ''requirements_file'' = Inr (YStr req) \<and>
     environ s ''PATH'' = Some old \<and>
     (let project_dir = joinpath (Path dir) name;
          venv_dir = joinpath project_dir venv;
          scripts = joinpath venv_dir ''Scripts'';
          env = (environ s)(''VIRTUAL_ENV'' \<mapsto> str_path venv_dir,
                            ''PATH'' \<mapsto> str_path scripts @ '';'' @ old)
      in calls s' = calls s @
           [(''python -m venv '' @ str_path venv_dir, None),
            (str_path (joinpath scripts ''activate'') @ '' && '' @
               str_path (joinpath scripts ''pip'') @ '' install -r '' @
               str_path (joinpath project_dir req), Some env),
            (str_path (joinpath scripts ''activate'') @ '' && '' @
               str_path (joinpath scripts ''pip'') @ '' install pyinstaller'', Some env),
            (str_path (joinpath scripts ''pyinstaller'') @ '' '' @
               str_path (joinpath project_dir ''redzer.spec''), Some env),
            (''ISCC '' @ str_path (joinpath project_dir ''redzer_installer.iss''), None)])"
proof -
  from assms obtain pd vd sp ip s1 where
    files: "write_project_files config s = (Inr (pd, vd, sp, ip), s1)"
    and cmds: "run_build_commands sh config (pd, vd, sp, ip) s1 = (Inr (), s')"
    by (auto simp: initialize_project_def bind_io_Inr_iff)
  from keeps_write_project_files files have k: "environ s1 = environ s" "calls s1 = calls s"
    by (auto simp: keeps_processes_def)
  from write_project_files_Inr[OF files] obtain name dir venv where
    look: "subscript config ''project_name'' = Inr (YStr name)"
      "subscript config ''project_dir'' = Inr (YStr dir)"
      "subscript config ''venv_dir'' = Inr (YStr venv)"
    and p: "pd = joinpath (Path dir) name" "vd = joinpath pd venv"
      "sp = pd @ [''redzer.spec'']" "ip = pd @ [''redzer_installer.iss'']"
    by auto
  from run_build_commands_Inr[OF cmds] k p look show ?thesis
    by (auto simp: Let_def)
qed

lemma run_command_failed:
  assumes "sh command (case env of None \<Rightarrow> environ s | Some e \<Rightarrow> e) (disk s) = (r, d')"
    and "returncode r \<noteq> 0"
  shows "run_command sh command env s =
     (case decode_utf8 (stderr r) of
        Inl e \<Rightarrow> (Inl e, s\<lparr>disk := d', calls := calls s @ [(command, env)],
                           log := log s @ [(ERROR, ''Command failed: '' @ command)]\<rparr>)
      | Inr text \<Rightarrow> (Inr (), s\<lparr>disk := d', calls := calls s @ [(command, env)],
                           log := log s @ [(ERROR, ''Command failed: '' @ command), (ERROR, text)]\<rparr>))"
  using assms
  by (simp add: run_command_def subprocess_run_def bind_io_def lift_def logging_error_def
      split: sum.splits)

lemma run_command_succeeded:
  assumes "sh command (case env of None \<Rightarrow> environ s | Some e \<Rightarrow> e) (disk s) = (r, d')"
    and "returncode r = 0"
  shows "run_command sh command env s =
     (case decode_utf8 (stdout r) of
        Inl e \<Rightarrow> (Inl e, s\<lparr>disk := d', calls := calls s @ [(command, env)],
                           log := log s @ [(INFO, ''Command succeeded: '' @ command)]\<rparr>)
      | Inr text \<Rightarrow> (Inr (), s\<lparr>disk := d', calls := calls s @ [(command, env)],
                           log := log s @ [(INFO, ''Command succeeded: '' @ command), (INFO, text)]\<rparr>))"
  using assms
  by (simp add: run_command_def subprocess_run_def bind_io_def lift_def logging_info_def
      split: sum.splits)

lemma run_command_total:
  assumes "\<forall>c e d. output_decodes (fst (sh c e d))"
  shows "\<exists>s'. run_command sh command env s = (Inr (), s')"
proof -
  obtain r d' where sh: "sh command (case env of None \<Rightarrow> environ s | Some e \<Rightarrow> e) (disk s) = (r, d')"
    by (cases "sh command (case env of None \<Rightarrow> environ s | Some e \<Rightarrow> e) (disk s)")
  with assms[rule_format, of command "case env of None \<Rightarrow> environ s | Some e \<Rightarrow> e" "disk s"]
  have dec: "output_decodes r" by simp
  show ?thesis
  proof (cases "returncode r = 0")
    case True
    with dec run_command_succeeded[where sh=sh and command=command and env=env and s=s, OF sh True] show ?thesis
      by (simp add: output_decodes_def decode_utf8_def)
  next
    case False
    with dec run_command_failed[where sh=sh and command=command and env=env and s=s, OF sh False] show ?thesis
      by (simp add: output_decodes_def decode_utf8_def)
  qed
qed

lemma run_build_commands_total:
  assumes dec: "\<forall>c e d. output_decodes (fst (sh c e d))"
    and req: "subscript config ''requirements_file'' = Inr (YStr req)"
    and path: "environ s ''PATH'' = Some old"
  shows "\<exists>s'. run_build_commands sh config (pd, vd, sp, ip) s = (Inr (), s')"
proof -
  define env where "env = (environ s)(''VIRTUAL_ENV'' \<mapsto> str_path vd,
      ''PATH'' \<mapsto> str_path (vd @ [''Scripts'']) @ '';'' @ old)"
  define c1 where "c1 = ''python -m venv '' @ str_path vd"
  define c2 where "c2 = str_path (vd @ [''Scripts'', ''activate'']) @ '' && '' @
           str_path (vd @ [''Scripts'', ''pip'']) @ '' install -r '' @ str_path (joinpath pd req)"
  define c3 where "c3 = str_path (vd @ [''Scripts'', ''activate'']) @ '' && '' @
           str_path (vd @ [''Scripts'', ''pip'']) @ '' install pyinstaller''"
  define c4 where "c4 = str_path (vd @ [''Scripts'', ''pyinstaller'']) @ '' '' @ str_path sp"
  define c5 where "c5 = ''ISCC '' @ str_path ip"
  from run_command_total[OF dec] obtain s1 where r1: "run_command sh c1 None s = (Inr (), s1)" by blast
  from run_command_total[OF dec] obtain s2 where r2: "run_command sh c2 (Some env) s1 = (Inr (), s2)" by blast
  from run_command_total[OF dec] obtain s3 where r3: "run_command sh c3 (Some env) s2 = (Inr (), s3)" by blast
  from run_command_total[OF dec] obtain s4 where r4: "run_command sh c4 (Some env) s3 = (Inr (), s4)" by blast
  from run_command_total[OF dec] obtain s5 where r5: "run_command sh c5 None s4 = (Inr (), s5)" by blast
  from run_command_result[OF r1] have e1: "environ s1 = environ s" by simp
  have "run_build_commands sh config (pd, vd, sp, ip) s =
     bind_io (run_command sh c1 None) (\<lambda>_.
     bind_io (\<lambda>s. return (environ s) s) (\<lambda>copy.
     let env1 = copy(''VIRTUAL_ENV'' \<mapsto> str_path vd) in
     bind_io (lift (case env1 ''PATH'' of None \<Rightarrow> Inl (KeyError ''PATH'') | Some old \<Rightarrow> Inr old)) (\<lambda>old.
     let env = env1(''PATH'' \<mapsto> str_path (vd @ [''Scripts'']) @ '';'' @ old) in
     bind_io (run_command sh c2 (Some env)) (\<lambda>_.
     bind_io (run_command sh c3 (Some env)) (\<lambda>_.
     bind_io (run_command sh c4 (Some env)) (\<lambda>_.
     bind_io (run_command sh c5 None) (\<lambda>_.
     logging_info ''Project initialization complete''))))))) s"
    using req
    by (simp add: run_build_commands_def Let_def truediv_def c1_def c2_def c3_def c4_def c5_def)
  also have "\<dots> = (Inr (), s5\<lparr>log := log s5 @ [(INFO, ''Project initialization complete'')]\<rparr>)"
    using r1 e1 path r2 r3 r4 r5
    by (simp add: bind_io_def return_def lift_def Let_def env_def logging_info_def)
  finally show ?thesis by blast
qed

lemma quiet_shell_decodes: "\<forall>c e d. output_decodes (fst (quiet_shell c e d))"
  by (simp add: quiet_shell_def output_decodes_def)

lemma bind_io_calls:
  assumes "bind_io m f s = (r, s')"
    and "\<And>r1 s1. m s = (r1, s1) \<Longrightarrow> \<exists>cs. calls s1 = calls s @ cs \<and> length cs \<le> a"
    and "\<And>x s1 r2 s2. m s = (Inr x, s1) \<Longrightarrow> f x s1 = (r2, s2) \<Longrightarrow>
           \<exists>cs. calls s2 = calls s1 @ cs \<and> length cs \<le> b"
  shows "\<exists>cs. calls s' = calls s @ cs \<and> length cs \<le> a + b"
proof (cases "m s")
  case (Pair r1 s1)
  show ?thesis
  proof (cases r1)
    case (Inl e)
    with Pair assms(1) have "s' = s1" by (simp add: bind_io_def)
    with assms(2)[OF Pair] show ?thesis by auto
  next
    case (Inr x)
    with Pair assms(1) have f: "f x s1 = (r, s')" by (simp add: bind_io_def)
    from assms(2)[OF Pair] obtain cs1 where c1: "calls s1 = calls s @ cs1" "length cs1 \<le> a" by blast
    from assms(3)[OF Pair[unfolded Inr] f] obtain cs2 where c2: "calls s' = calls s1 @ cs2" "length cs2 \<le> b" by blast
    from c1 c2 show ?thesis by (intro exI[of _ "cs1 @ cs2"]) simp
  qed
qed

lemma run_command_one_call:
  "run_command sh command env s = (r, s') \<Longrightarrow> \<exists>cs. calls s' = calls s @ cs \<and> length cs \<le> 1"
  by (drule run_command_result) simp

lemma lift_no_call:
  "lift x s = (r, s') \<Longrightarrow> \<exists>cs. calls s' = calls s @ cs \<and> length cs \<le> 0"
  by simp

lemma run_build_commands_at_most_five:
  assumes "run_build_commands sh config paths s = (r, s')"
  shows "\<exists>cs. calls s' = calls s @ cs \<and> length cs \<le> 5"
proof -
  obtain pd vd sp ip where p: "paths = (pd, vd, sp, ip)" by (cases paths)
  have "\<exists>cs. calls s' = calls s @ cs \<and> length cs \<le> 1 + (0 + (0 + (0 + (0 + (1 + (1 + (1 + (1 + 0))))))))"
    using assms unfolding p run_build_commands_def Let_def prod.case
    apply (elim bind_io_calls)
    apply (erule run_command_one_call lift_no_call | simp add: logging_info_def)+
    done
  then show ?thesis by (simp add: eval_nat_numeral)
qed

section \<open>The claims\<close>


subsection \<open>C1: a failing command and the rest of the sequence\<close>

text \<open>
  C1 says that a non-zero exit never stops the sequence: \<open>run_command\<close> logs the failure
  with the captured error stream and returns. The handler of \<open>run_command\<close> decodes the
  error stream as UTF-8 inside the \<^verbatim>\<open>except\<close> block, and that decoding can raise. When
  the child fails with an error stream that is not UTF-8, \<open>run_command\<close> logs
  \<^verbatim>\<open>Command failed\<close> and then raises \<^verbatim>\<open>UnicodeDecodeError\<close>; when the creation of the
  virtual environment fails so, \<open>initialize_project\<close> ends there and none of the other
  four commands is issued.
\<close>

theorem undecodable_error_stream_stops_the_workflow:
  "run_command garbled_shell command env s =
     (Inl UnicodeDecodeError,
      s\<lparr>calls := calls s @ [(command, env)],
        log := log s @ [(ERROR, ''Command failed: '' @ command)]\<rparr>) \<and>
   fst (initialize_project garbled_shell demo_config demo_world) = Inl UnicodeDecodeError \<and>
   map fst (calls (snd (initialize_project garbled_shell demo_config demo_world))) =
     [''python -m venv work/demo/venv'']"
proof -
  have rc: "\<And>command env s. run_command garbled_shell command env s =
     (Inl UnicodeDecodeError,
      s\<lparr>calls := calls s @ [(command, env)],
        log := log s @ [(ERROR, ''Command failed: '' @ command)]\<rparr>)"
    by (simp add: run_command_def subprocess_run_def garbled_shell_def bind_io_def lift_def
        logging_error_def decode_utf8_def)
  from demo_write_project_files obtain s1 where files: "write_project_files demo_config demo_world =
          (Inr ([''work'', ''demo''], [''work'', ''demo'', ''venv''],
                [''work'', ''demo'', ''redzer.spec''], [''work'', ''demo'', ''redzer_installer.iss'']), s1)"
    by blast
  from keeps_write_project_files files have k: "calls s1 = calls demo_world"
    by (auto simp: keeps_processes_def)
  have "initialize_project garbled_shell demo_config demo_world =
     (Inl UnicodeDecodeError,
      s1\<lparr>calls := calls s1 @ [(''python -m venv '' @ str_path [''work'', ''demo'', ''venv''], None)],
         log := log s1 @ [(ERROR, ''Command failed: '' @ ''python -m venv '' @ str_path [''work'', ''demo'', ''venv''])]\<rparr>)"
    using files
    by (simp add: initialize_project_def run_build_commands_def bind_io_def rc)
  with k rc show ?thesis
    by (simp add: demo_world_def str_path_def is_absolute_def)
qed

subsection \<open>C2: each file at the project root equals its template\<close>

text \<open>
  C2. Whenever \<open>initialize_project\<close> gets through its file-writing steps, each of the
  three files at the project root holds what its template in \<^verbatim>\<open>templates/\<close> holds, and
  that is the string constant of the script: nothing is substituted. (The text read
  back from a template is the text written, because the constants contain no carriage
  return for the text-mode read to translate.)
\<close>

theorem copies_equal_templates:
  assumes "write_project_files config s = (Inr (project_dir, venv_dir, spec_path, inno_setup_path), s')"
  shows "disk s' (joinpath project_dir ''setup.py'') =
           disk s' (joinpath (joinpath project_dir ''templates'') ''setup_template.py'') \<and>
         disk s' spec_path =
           disk s' (joinpath (joinpath project_dir ''templates'') ''redzer_template.spec'') \<and>
         disk s' inno_setup_path =
           disk s' (joinpath (joinpath project_dir ''templates'') ''redzer_installer_template.iss'') \<and>
         disk s' (joinpath project_dir ''setup.py'') = Some (File setup_content) \<and>
         disk s' spec_path = Some (File redzer_spec_content) \<and>
         disk s' inno_setup_path = Some (File redzer_installer_content)"
proof -
  from write_project_files_Inr[OF assms] obtain s1 where
    sp: "spec_path = project_dir @ [''redzer.spec'']"
    and ip: "inno_setup_path = project_dir @ [''redzer_installer.iss'']"
    and cd: "create_directories project_dir (project_dir @ [''templates''])
             (s\<lparr>log := log s @ [(INFO, ''Initializing project...'')]\<rparr>) = (Inr (), s1)"
    and s': "disk s' = (disk s1)
                   (project_dir @ [''setup.py''] \<mapsto> File setup_content,
                    project_dir @ [''redzer.spec''] \<mapsto> File redzer_spec_content,
                    project_dir @ [''redzer_installer.iss''] \<mapsto> File redzer_installer_content)"
    by auto
  from create_directories_templates[OF cd] sp ip s' show ?thesis by simp
qed

theorem copies_equal_templates_witness:
  "\<exists>s'. write_project_files demo_config demo_world =
          (Inr ([''work'', ''demo''], [''work'', ''demo'', ''venv''],
                [''work'', ''demo'', ''redzer.spec''], [''work'', ''demo'', ''redzer_installer.iss'']), s') \<and>
        disk s' [''work'', ''demo'', ''setup.py''] = disk s' [''work'', ''demo'', ''templates'', ''setup_template.py''] \<and>
        disk s' [''work'', ''demo'', ''redzer.spec''] = disk s' [''work'', ''demo'', ''templates'', ''redzer_template.spec''] \<and>
        disk s' [''work'', ''demo'', ''redzer_installer.iss''] =
          disk s' [''work'', ''demo'', ''templates'', ''redzer_installer_template.iss''] \<and>
        disk s' [''work'', ''demo'', ''setup.py''] = Some (File setup_content)"
proof -
  from demo_write_project_files obtain s' where run: "write_project_files demo_config demo_world =
          (Inr ([''work'', ''demo''], [''work'', ''demo'', ''venv''],
                [''work'', ''demo'', ''redzer.spec''], [''work'', ''demo'', ''redzer_installer.iss'']), s')"
    by blast
  from copies_equal_templates[OF run] run show ?thesis by auto
qed

subsection \<open>C3: a missing configuration file is the one fatal exit\<close>

text \<open>
  C3. When the configuration path names nothing (a name on it is missing, or a file
  stands where the path needs a directory, as in \<^verbatim>\<open>empty.yaml/\<close>), \<open>load_config\<close> logs
  an error and raises \<^verbatim>\<open>SystemExit(1)\<close>: the process ends with status 1, and neither the
  disk nor the trace of commands has changed. It is the only exit of the workflow:
  \<open>load_config\<close> exits in no other case, and \<open>initialize_project\<close> never does (whatever
  else it may raise is an exception that was not meant, not an exit). A path that
  names a directory is not missing: \<^verbatim>\<open>os.path.exists\<close> is true of it.
\<close>

theorem missing_config_is_the_only_exit:
  "(\<not> os_path_exists config_file s \<longrightarrow>
      (\<exists>s'. load_config safe_load config_file s = (Inl (SystemExit 1), s') \<and>
            disk s' = disk s \<and> calls s' = calls s \<and>
            log s' = log s @ [(ERROR, ''Configuration file not found: '' @ config_file)])) \<and>
   (\<forall>c s'. load_config safe_load config_file s = (Inl (SystemExit c), s') \<longrightarrow>
      \<not> os_path_exists config_file s) \<and>
   (\<forall>c s'. initialize_project sh config s \<noteq> (Inl (SystemExit c), s'))"
proof (intro conjI allI impI)
  assume "\<not> os_path_exists config_file s"
  then show "\<exists>s'. load_config safe_load config_file s = (Inl (SystemExit 1), s') \<and>
            disk s' = disk s \<and> calls s' = calls s \<and>
            log s' = log s @ [(ERROR, ''Configuration file not found: '' @ config_file)]"
    by (simp add: load_config_def raise_def)
next
  fix c s'
  assume a: "load_config safe_load config_file s = (Inl (SystemExit c), s')"
  show "\<not> os_path_exists config_file s"
  proof
    assume e: "os_path_exists config_file s"
    have "never_exits (bind_io (open_name config_file) (\<lambda>text.
        case safe_load text of None \<Rightarrow> raise YAMLError | Some config \<Rightarrow> return config))"
      by (intro never_exits_bind never_exits_open_name)
         (simp add: never_exits_def raise_def return_def split: option.splits)
    with a e show False
      by (simp add: load_config_def never_exits_def)
  qed
next
  fix c s'
  show "initialize_project sh config s \<noteq> (Inl (SystemExit c), s')"
    using never_exits_initialize_project[of sh config] by (simp add: never_exits_def)
qed

theorem missing_config_is_the_only_exit_witness:
  "(\<exists>s'. load_config (\<lambda>text. None) ''config.yaml'' demo_world = (Inl (SystemExit 1), s') \<and>
         disk s' = disk demo_world \<and> calls s' = calls demo_world \<and>
         log s' = [(ERROR, ''Configuration file not found: config.yaml'')]) \<and>
   (\<exists>s'. load_config (\<lambda>text. Some YNull) ''empty.yaml/'' demo_world = (Inl (SystemExit 1), s') \<and>
         disk s' = disk demo_world \<and> calls s' = calls demo_world \<and>
         log s' = [(ERROR, ''Configuration file not found: empty.yaml/'')])"
proof -
  have a: "\<not> os_path_exists ''config.yaml'' demo_world"
    by (simp add: os_path_exists_def stat_def root_of_def demo_world_def demo_disk_def)
  have b: "\<not> os_path_exists ''empty.yaml/'' demo_world"
    by (simp add: os_path_exists_def stat_def root_of_def demo_world_def demo_disk_def)
  from a missing_config_is_the_only_exit[of "''config.yaml''" demo_world "\<lambda>text. None"]
  have "\<exists>s'. load_config (\<lambda>text. None) ''config.yaml'' demo_world = (Inl (SystemExit 1), s') \<and>
         disk s' = disk demo_world \<and> calls s' = calls demo_world \<and>
         log s' = [(ERROR, ''Configuration file not found: config.yaml'')]"
    by (simp add: demo_world_def)
  moreover
  from b missing_config_is_the_only_exit[of "''empty.yaml/''" demo_world "\<lambda>text. Some YNull"]
  have "\<exists>s'. load_config (\<lambda>text. Some YNull) ''empty.yaml/'' demo_world = (Inl (SystemExit 1), s') \<and>
         disk s' = disk demo_world \<and> calls s' = calls demo_world \<and>
         log s' = [(ERROR, ''Configuration file not found: empty.yaml/'')]"
    by (simp add: demo_world_def)
  ultimately show ?thesis by blast
qed

subsection \<open>C4: the five subdirectories\<close>

text \<open>
  C4. Whenever \<open>create_directories\<close> returns (called, as \<open>initialize_project\<close> calls it,
  with the \<^verbatim>\<open>templates\<close> directory of the project directory), the entries of the project
  directory are exactly \<^verbatim>\<open>modules\<close>, \<^verbatim>\<open>services\<close>, \<^verbatim>\<open>caching\<close>, \<^verbatim>\<open>tests\<close> and
  \<^verbatim>\<open>templates\<close>, each a directory. And it does return when the project directory exists
  (and is not the current directory or a root), whatever it held: what was there is
  deleted. The set is a constant: it mentions neither the project directory nor
  anything else of the configuration or of the world before.
\<close>

theorem subdirectories_after_reset:
  assumes "wf_fs (disk s)"
  shows "(\<forall>s'. create_directories pd (joinpath pd ''templates'') s = (Inr (), s') \<longrightarrow>
            {name. disk s' (pd @ [name]) \<noteq> None} =
              {''modules'', ''services'', ''caching'', ''tests'', ''templates''} \<and>
            (\<forall>name \<in> {''modules'', ''services'', ''caching'', ''tests'', ''templates''}.
               disk s' (pd @ [name]) = Some Dir)) \<and>
         (disk s pd = Some Dir \<and> \<not> anchor pd \<longrightarrow>
            (\<exists>s'. create_directories pd (joinpath pd ''templates'') s = (Inr (), s') \<and>
               {name. disk s' (pd @ [name]) \<noteq> None} =
                 {''modules'', ''services'', ''caching'', ''tests'', ''templates''} \<and>
               (\<forall>name \<in> {''modules'', ''services'', ''caching'', ''tests'', ''templates''}.
                  disk s' (pd @ [name]) = Some Dir)))"
proof -
  have after: "{name. disk s' (pd @ [name]) \<noteq> None} =
              {''modules'', ''services'', ''caching'', ''tests'', ''templates''} \<and>
            (\<forall>name \<in> {''modules'', ''services'', ''caching'', ''tests'', ''templates''}.
               disk s' (pd @ [name]) = Some Dir)"
    if run: "create_directories pd (pd @ [''templates'']) s = (Inr (), s')" for s'
  proof -
    from create_directories_Inr[OF assms run] have "\<And>r. disk s' (pd @ r) = skeleton r"
      by simp
    then show ?thesis
      using skeleton_children by (auto simp: skeleton_def)
  qed
  have total: "\<exists>s'. create_directories pd (pd @ [''templates'']) s = (Inr (), s')"
    if "disk s pd = Some Dir" "\<not> anchor pd"
    using create_directories_total[OF assms that(2)] that(1)
      wf_existing_no_file_above[OF assms, of pd] by simp
  from after total show ?thesis by (simp del: insert_iff) blast
qed

theorem subdirectories_after_reset_witness:
  "disk used_world [''work'', ''demo'', ''old'', ''notes.txt''] = Some (File ''notes'') \<and>
   disk used_world [''work'', ''demo'', ''stray.txt''] = Some (File ''left over'') \<and>
   (\<exists>s'. create_directories [''work'', ''demo''] [''work'', ''demo'', ''templates''] used_world = (Inr (), s') \<and>
      {name. disk s' ([''work'', ''demo''] @ [name]) \<noteq> None} =
        {''modules'', ''services'', ''caching'', ''tests'', ''templates''})"
proof -
  have wf: "wf_fs (disk used_world)" by (simp add: used_world_def wf_used_disk)
  have there: "disk used_world [''work'', ''demo''] = Some Dir \<and> \<not> anchor [''work'', ''demo'']"
    by (simp add: used_world_def used_disk_def anchor_def)
  have "disk used_world [''work'', ''demo'', ''old'', ''notes.txt''] = Some (File ''notes'')"
    "disk used_world [''work'', ''demo'', ''stray.txt''] = Some (File ''left over'')"
    by (simp_all add: used_world_def used_disk_def)
  moreover
  from subdirectories_after_reset[OF wf, of "[''work'', ''demo'']"] there
  have "\<exists>s'. create_directories [''work'', ''demo''] [''work'', ''demo'', ''templates''] used_world = (Inr (), s') \<and>
      {name. disk s' ([''work'', ''demo''] @ [name]) \<noteq> None} =
        {''modules'', ''services'', ''caching'', ''tests'', ''templates''}"
    by auto
  ultimately show ?thesis by blast
qed

subsection \<open>C5: the reset is idempotent and forgets what was there\<close>

text \<open>
  C5. Let \<open>create_directories\<close> have returned once, in the world \<open>s1\<close>. Then the
  project directory exists in \<open>s1\<close>, and in every well-formed world \<open>u\<close> in which it is
  a directory (\<open>s1\<close> itself, or \<open>s1\<close> with stray files put anywhere below the project
  directory) a second run returns too and leaves, at and below the project directory,
  exactly what the first run left; whatever else was there before the second run is
  gone.
\<close>

theorem reset_is_idempotent:
  assumes "wf_fs (disk s)"
    and "create_directories pd (joinpath pd ''templates'') s = (Inr (), s1)"
    and "wf_fs (disk u)" and "disk u pd = Some Dir"
  shows "wf_fs (disk s1) \<and> disk s1 pd = Some Dir \<and>
         (\<exists>s2. create_directories pd (joinpath pd ''templates'') u = (Inr (), s2) \<and>
            (\<forall>r. disk s2 (pd @ r) = disk s1 (pd @ r)) \<and>
            (\<forall>r. skeleton r = None \<longrightarrow> disk s2 (pd @ r) = None))"
proof -
  from create_directories_Inr[of s pd "()" s1] assms(1,2)
  have na: "\<not> anchor pd" and s1: "disk s1 = reset pd (disk s)" by simp_all
  have anc: "\<forall>a c. strict_prefix a pd \<longrightarrow> disk u a \<noteq> Some (File c)"
    using wf_existing_no_file_above[OF assms(3), of pd] assms(4) by simp
  from create_directories_total[OF assms(3) na _ anc] assms(4) obtain s2 where
    run2: "create_directories pd (pd @ [''templates'']) u = (Inr (), s2)" by auto
  from create_directories_Inr[OF assms(3) run2] have s2: "disk s2 = reset pd (disk u)" by simp
  from s1 na assms(1) have "wf_fs (disk s1)" "disk s1 pd = Some Dir"
    by (simp_all add: wf_reset)
  with run2 s1 s2 show ?thesis by simp
qed

theorem reset_is_idempotent_witness:
  "\<exists>s1 s2. create_directories [''work'', ''demo''] [''work'', ''demo'', ''templates''] demo_world = (Inr (), s1) \<and>
     create_directories [''work'', ''demo''] [''work'', ''demo'', ''templates'']
        (s1\<lparr>disk := (disk s1)([''work'', ''demo'', ''stray.txt''] \<mapsto> File ''left over'')\<rparr>) = (Inr (), s2) \<and>
     disk s2 [''work'', ''demo'', ''stray.txt''] = None \<and>
     disk s2 [''work'', ''demo'', ''modules''] = disk s1 [''work'', ''demo'', ''modules''] \<and>
     disk s1 [''work'', ''demo'', ''modules''] = Some Dir"
proof -
  let ?pd = "[''work'', ''demo'']"
  have wf: "wf_fs (disk demo_world)" by (simp add: demo_world_def wf_demo_disk)
  have "\<exists>s'. create_directories ?pd (?pd @ [''templates'']) demo_world = (Inr (), s')"
    by (rule create_directories_total[OF wf])
       (auto simp: demo_world_def demo_disk_def anchor_def strict_prefix_def prefix_Cons)
  then obtain s1 where
    run1: "create_directories ?pd (joinpath ?pd ''templates'') demo_world = (Inr (), s1)"
    by auto
  from create_directories_Inr[of demo_world ?pd "()" s1] wf run1
  have d1: "disk s1 = reset ?pd (disk demo_world)" by simp
  have below: "\<And>r. disk s1 (?pd @ r) = skeleton r"
    using d1 reset_below[of ?pd "disk demo_world"] by simp
  from d1 wf have wf1: "wf_fs (disk s1)" by (simp add: wf_reset anchor_def)
  define u where "u = s1\<lparr>disk := (disk s1)([''work'', ''demo'', ''stray.txt''] \<mapsto> File ''left over'')\<rparr>"
  have "\<forall>q. strict_prefix (?pd @ [''stray.txt'']) q \<longrightarrow> disk s1 q = None"
  proof (intro allI impI)
    fix q assume "strict_prefix (?pd @ [''stray.txt'']) q"
    then obtain r where "q = ?pd @ ([''stray.txt''] @ r)"
      by (auto simp: strict_prefix_def prefix_def)
    with below[of "[''stray.txt''] @ r"] show "disk s1 q = None"
      by (simp add: skeleton_def)
  qed
  with wf_add_leaf[OF wf1, of "?pd @ [''stray.txt'']" "File ''left over''"] below[of "[]"]
  have wfu: "wf_fs (disk u)"
    by (simp add: u_def parent_def anchor_def skeleton_def)
  have du: "disk u ?pd = Some Dir" using below[of "[]"] by (simp add: u_def skeleton_def)
  from reset_is_idempotent[OF wf run1 wfu du] obtain s2 where
    run2: "create_directories ?pd (joinpath ?pd ''templates'') u = (Inr (), s2)"
    and same: "\<forall>r. disk s2 (?pd @ r) = disk s1 (?pd @ r)"
    and gone: "\<forall>r. skeleton r = None \<longrightarrow> disk s2 (?pd @ r) = None"
    by auto
  from gone[rule_format, of "[''stray.txt'']"] have "disk s2 [''work'', ''demo'', ''stray.txt''] = None"
    by (simp add: skeleton_def)
  moreover from same[rule_format, of "[''modules'']"]
  have "disk s2 [''work'', ''demo'', ''modules''] = disk s1 [''work'', ''demo'', ''modules'']" by simp
  moreover from below[of "[''modules'']"] have "disk s1 [''work'', ''demo'', ''modules''] = Some Dir"
    by (simp add: skeleton_def)
  ultimately show ?thesis using run1 run2 by (auto simp: u_def)
qed

subsection \<open>C6: five commands, in a fixed order\<close>

text \<open>
  C6 says that the workflow issues exactly five external commands, each after the one
  before it has completed. \<^verbatim>\<open>subprocess.run\<close> is synchronous, so the child of a call
  has exited, and has done to the disk what it does, when the call returns; but the
  handler of \<open>run_command\<close> decodes the error stream of a failed child as UTF-8 and that
  can raise (the defect of C1). On the sample configuration, with children that make
  the directory of the virtual environment and then fail with an error stream that is
  not UTF-8, \<open>initialize_project\<close> ends with \<^verbatim>\<open>UnicodeDecodeError\<close> after one command: the
  directory the child made is on the disk, the failure is the last line of the log,
  and the other four commands have not been issued.
\<close>

theorem one_command_where_five_are_claimed:
  "fst (initialize_project half_made_venv_shell demo_config demo_world) = Inl UnicodeDecodeError \<and>
   calls (snd (initialize_project half_made_venv_shell demo_config demo_world)) =
     [(''python -m venv work/demo/venv'', None)] \<and>
   disk demo_world [''work'', ''demo'', ''venv''] = None \<and>
   disk (snd (initialize_project half_made_venv_shell demo_config demo_world))
     [''work'', ''demo'', ''venv''] = Some Dir \<and>
   last (log (snd (initialize_project half_made_venv_shell demo_config demo_world))) =
     (ERROR, ''Command failed: python -m venv work/demo/venv'')"
proof -
  from demo_write_project_files obtain s1 where files: "write_project_files demo_config demo_world =
          (Inr ([''work'', ''demo''], [''work'', ''demo'', ''venv''],
                [''work'', ''demo'', ''redzer.spec''], [''work'', ''demo'', ''redzer_installer.iss'']), s1)"
    by blast
  from keeps_write_project_files files have k: "calls s1 = calls demo_world"
    by (auto simp: keeps_processes_def)
  have rc: "run_command half_made_venv_shell (''python -m venv '' @ str_path [''work'', ''demo'', ''venv'']) None s1 =
     (Inl UnicodeDecodeError,
      s1\<lparr>disk := (disk s1)([''work'', ''demo'', ''venv''] \<mapsto> Dir),
         calls := calls s1 @ [(''python -m venv '' @ str_path [''work'', ''demo'', ''venv''], None)],
         log := log s1 @ [(ERROR, ''Command failed: '' @ ''python -m venv '' @ str_path [''work'', ''demo'', ''venv''])]\<rparr>)"
    by (simp add: run_command_def subprocess_run_def half_made_venv_shell_def bind_io_def lift_def
        logging_error_def decode_utf8_def)
  have "initialize_project half_made_venv_shell demo_config demo_world =
     (Inl UnicodeDecodeError,
      s1\<lparr>disk := (disk s1)([''work'', ''demo'', ''venv''] \<mapsto> Dir),
         calls := calls s1 @ [(''python -m venv '' @ str_path [''work'', ''demo'', ''venv''], None)],
         log := log s1 @ [(ERROR, ''Command failed: '' @ ''python -m venv '' @ str_path [''work'', ''demo'', ''venv''])]\<rparr>)"
    using files rc
    by (simp add: initialize_project_def run_build_commands_def bind_io_def)
  moreover have "disk demo_world [''work'', ''demo'', ''venv''] = None"
    by (simp add: demo_world_def demo_disk_def)
  ultimately show ?thesis using k
    by (simp add: demo_world_def str_path_def is_absolute_def)
qed

subsection \<open>C7: resetting a directory that does not exist\<close>

text \<open>
  C7. When the project directory does not exist (and no file stands where one of its
  ancestors would have to be made), \<open>create_directories\<close> returns: nothing is deleted
  and no removal is logged, the directory is made with the ancestors it lacks, and
  the tree at the project directory is the one that a reset of an existing directory
  leaves.
\<close>

theorem reset_of_a_missing_directory:
  assumes "wf_fs (disk s)" and "\<not> exists pd s"
    and "\<forall>a c. strict_prefix a pd \<longrightarrow> disk s a \<noteq> Some (File c)"
  shows "\<exists>s'. create_directories pd (joinpath pd ''templates'') s = (Inr (), s') \<and>
           log s' = log s @ created_log pd \<and>
           (\<forall>r. disk s' (pd @ r) = skeleton r) \<and>
           (\<forall>u u'. wf_fs (disk u) \<and> exists pd u \<and>
                create_directories pd (joinpath pd ''templates'') u = (Inr (), u') \<longrightarrow>
                (\<forall>r. disk u' (pd @ r) = disk s' (pd @ r)))"
proof -
  from assms(2) have fresh: "disk s pd = None" by (simp add: exists_def)
  from create_directories_fresh_total[OF assms(1) fresh assms(3)] obtain s' where
    run: "create_directories pd (pd @ [''templates'']) s = (Inr (), s')" by blast
  from create_directories_fresh[OF assms(1) fresh run]
  have s': "s' = s\<lparr>disk := reset pd (disk s), log := log s @ created_log pd\<rparr>" .
  have "\<forall>r. disk u' (pd @ r) = disk s' (pd @ r)"
    if "wf_fs (disk u)" "create_directories pd (joinpath pd ''templates'') u = (Inr (), u')" for u u'
    using create_directories_Inr[of u pd "()" u'] that s' by simp
  with run s' show ?thesis by auto
qed

theorem reset_of_a_missing_directory_witness:
  "\<exists>s'. create_directories [''work'', ''demo''] [''work'', ''demo'', ''templates''] demo_world = (Inr (), s') \<and>
        log s' = created_log [''work'', ''demo''] \<and>
        disk s' [''work'', ''demo'', ''templates''] = Some Dir \<and>
        disk s' [''work'', ''demo'', ''templates'', ''setup_template.py''] = Some (File setup_content)"
proof -
  have wf: "wf_fs (disk demo_world)" by (simp add: demo_world_def wf_demo_disk)
  have ne: "\<not> exists [''work'', ''demo''] demo_world"
    by (simp add: exists_def demo_world_def demo_disk_def)
  have anc: "\<forall>a c. strict_prefix a [''work'', ''demo''] \<longrightarrow> disk demo_world a \<noteq> Some (File c)"
    by (auto simp: demo_world_def demo_disk_def strict_prefix_def prefix_Cons)
  from reset_of_a_missing_directory[OF wf ne anc] obtain s' where
    a: "create_directories [''work'', ''demo''] [''work'', ''demo'', ''templates''] demo_world = (Inr (), s')"
    and b: "log s' = log demo_world @ created_log [''work'', ''demo'']"
    and c: "\<forall>r. disk s' ([''work'', ''demo''] @ r) = skeleton r"
    by auto
  from c[rule_format, of "[''templates'']"] c[rule_format, of "[''templates'', ''setup_template.py'']"]
  have "disk s' [''work'', ''demo'', ''templates''] = Some Dir"
    "disk s' [''work'', ''demo'', ''templates'', ''setup_template.py''] = Some (File setup_content)"
    by (simp_all add: skeleton_def)
  with a b show ?thesis by (simp add: demo_world_def)
qed

subsection \<open>C8: a configuration without \<^verbatim>\<open>venv_dir\<close>\<close>

text \<open>
  C8. A configuration record that has no \<^verbatim>\<open>venv_dir\<close> field makes \<open>initialize_project\<close>
  fail while it still computes its paths: the world it leaves is the world it was given,
  so nothing has been deleted, created or logged. In a configuration record the fields
  that are present are strings; then the failure is the \<^verbatim>\<open>KeyError\<close> of the first of
  \<^verbatim>\<open>project_name\<close>, \<^verbatim>\<open>project_dir\<close>, \<^verbatim>\<open>venv_dir\<close> that is missing. (A \<^verbatim>\<open>project_name\<close>
  or \<^verbatim>\<open>project_dir\<close> that is no string fails as early, with a \<^verbatim>\<open>TypeError\<close>.)
\<close>

theorem missing_venv_dir_fails_before_any_change:
  assumes "map_of m ''venv_dir'' = None"
  shows "(\<exists>e. initialize_project sh (YMap m) s = (Inl e, s)) \<and>
         ((\<forall>v. map_of m ''project_name'' = Some v \<longrightarrow> is_str v) \<and>
          (\<forall>v. map_of m ''project_dir'' = Some v \<longrightarrow> is_str v) \<longrightarrow>
            initialize_project sh (YMap m) s =
              (Inl (KeyError (if map_of m ''project_name'' = None then ''project_name''
                              else if map_of m ''project_dir'' = None then ''project_dir''
                              else ''venv_dir'')), s))"
proof (intro conjI impI)
  from write_project_files_missing_venv_dir[OF assms, of s]
  show "\<exists>e. initialize_project sh (YMap m) s = (Inl e, s)"
    by (auto simp: initialize_project_def bind_io_def)
next
  assume "(\<forall>v. map_of m ''project_name'' = Some v \<longrightarrow> is_str v) \<and>
          (\<forall>v. map_of m ''project_dir'' = Some v \<longrightarrow> is_str v)"
  with write_project_files_missing_key[OF assms, of s]
  show "initialize_project sh (YMap m) s =
              (Inl (KeyError (if map_of m ''project_name'' = None then ''project_name''
                              else if map_of m ''project_dir'' = None then ''project_dir''
                              else ''venv_dir'')), s)"
    by (simp add: initialize_project_def bind_io_def)
qed

theorem missing_venv_dir_fails_before_any_change_witness:
  "initialize_project quiet_shell
     (YMap [(''project_name'', YStr ''demo''), (''project_dir'', YStr ''work''),
            (''requirements_file'', YStr ''requirements.txt'')]) demo_world
   = (Inl (KeyError ''venv_dir''), demo_world)"
  using missing_venv_dir_fails_before_any_change
    [of "[(''project_name'', YStr ''demo''), (''project_dir'', YStr ''work''),
          (''requirements_file'', YStr ''requirements.txt'')]" quiet_shell demo_world]
  by (simp add: is_str_def)

subsection \<open>C9: the names of the files\<close>

text \<open>
  C9, as the specification states it, gives the build-spec file, the installer script
  and their templates names that carry the configured project name. The script does
  not: the four names are the literals \<^verbatim>\<open>redzer.spec\<close>, \<^verbatim>\<open>redzer_installer.iss\<close>,
  \<^verbatim>\<open>redzer_template.spec\<close> and \<^verbatim>\<open>redzer_installer_template.iss\<close>, and the project name
  only chooses the directory. With the project name \<^verbatim>\<open>demo\<close> no file \<^verbatim>\<open>demo.spec\<close>,
  \<^verbatim>\<open>demo_installer.iss\<close>, \<^verbatim>\<open>demo_template.spec\<close> or \<^verbatim>\<open>demo_installer_template.iss\<close> is
  written:
\<close>

theorem names_follow_project_name_counterexample:
  "subscript demo_config ''project_name'' = Inr (YStr ''demo'') \<and>
   fst (write_project_files demo_config demo_world) =
     Inr ([''work'', ''demo''], [''work'', ''demo'', ''venv''],
          [''work'', ''demo'', ''redzer.spec''], [''work'', ''demo'', ''redzer_installer.iss'']) \<and>
   disk (snd (write_project_files demo_config demo_world)) [''work'', ''demo'', ''demo.spec''] = None \<and>
   disk (snd (write_project_files demo_config demo_world)) [''work'', ''demo'', ''demo_installer.iss''] = None \<and>
   disk (snd (write_project_files demo_config demo_world)) [''work'', ''demo'', ''templates'', ''demo_template.spec''] = None \<and>
   disk (snd (write_project_files demo_config demo_world)) [''work'', ''demo'', ''templates'', ''demo_installer_template.iss''] = None \<and>
   disk (snd (write_project_files demo_config demo_world)) [''work'', ''demo'', ''redzer.spec''] = Some (File redzer_spec_content) \<and>
   disk (snd (write_project_files demo_config demo_world)) [''work'', ''demo'', ''redzer_installer.iss''] = Some (File redzer_installer_content)"
proof -
  have wf: "wf_fs (disk demo_world)" by (simp add: demo_world_def wf_demo_disk)
  from demo_write_project_files obtain s' where run: "write_project_files demo_config demo_world =
          (Inr ([''work'', ''demo''], [''work'', ''demo'', ''venv''],
                [''work'', ''demo'', ''redzer.spec''], [''work'', ''demo'', ''redzer_installer.iss'']), s')"
    by blast
  have t: "\<And>r. disk s' ([''work'', ''demo''] @ r) = project_tree r"
    using write_project_files_tree[OF wf run] .
  have "disk s' [''work'', ''demo'', ''demo.spec''] = None"
    "disk s' [''work'', ''demo'', ''demo_installer.iss''] = None"
    "disk s' [''work'', ''demo'', ''templates'', ''demo_template.spec''] = None"
    "disk s' [''work'', ''demo'', ''templates'', ''demo_installer_template.iss''] = None"
    "disk s' [''work'', ''demo'', ''redzer.spec''] = Some (File redzer_spec_content)"
    "disk s' [''work'', ''demo'', ''redzer_installer.iss''] = Some (File redzer_installer_content)"
    using t[of "[''demo.spec'']"] t[of "[''demo_installer.iss'']"]
      t[of "[''templates'', ''demo_template.spec'']"] t[of "[''templates'', ''demo_installer_template.iss'']"]
      t[of "[''redzer.spec'']"] t[of "[''redzer_installer.iss'']"]
    by (simp_all add: project_tree_def skeleton_def)
  with run show ?thesis by (simp add: demo_config_def subscript_def)
qed

text \<open>
  C9, amended. For every configuration on which the file-writing steps return, the
  files at the project root are \<^verbatim>\<open>setup.py\<close>, \<^verbatim>\<open>redzer.spec\<close> and
  \<^verbatim>\<open>redzer_installer.iss\<close>, and the entries of \<^verbatim>\<open>templates/\<close> are \<^verbatim>\<open>setup_template.py\<close>,
  \<^verbatim>\<open>redzer_template.spec\<close> and \<^verbatim>\<open>redzer_installer_template.iss\<close>: fixed names, whatever
  the project name.
\<close>

theorem written_files_have_fixed_names:
  assumes "wf_fs (disk s)"
    and "write_project_files config s = (Inr (project_dir, venv_dir, spec_path, inno_setup_path), s')"
  shows "{name. \<exists>c. disk s' (project_dir @ [name]) = Some (File c)} =
           {''setup.py'', ''redzer.spec'', ''redzer_installer.iss''} \<and>
         {name. disk s' (project_dir @ [''templates'', name]) \<noteq> None} =
           {''setup_template.py'', ''redzer_template.spec'', ''redzer_installer_template.iss''} \<and>
         spec_path = project_dir @ [''redzer.spec''] \<and>
         inno_setup_path = project_dir @ [''redzer_installer.iss'']"
proof -
  have t: "\<And>r. disk s' (project_dir @ r) = project_tree r"
    using write_project_files_tree[OF assms] .
  have "{name. \<exists>c. project_tree [name] = Some (File c)} =
           {''setup.py'', ''redzer.spec'', ''redzer_installer.iss''}"
    by (auto simp: project_tree_def skeleton_def split: if_splits)
  moreover have "{name. project_tree [''templates'', name] \<noteq> None} =
           {''setup_template.py'', ''redzer_template.spec'', ''redzer_installer_template.iss''}"
    by (auto simp: project_tree_def skeleton_def split: if_splits)
  moreover from write_project_files_Inr[OF assms(2)] have
    "spec_path = project_dir @ [''redzer.spec''] \<and>
     inno_setup_path = project_dir @ [''redzer_installer.iss'']" by auto
  ultimately show ?thesis by (simp add: t)
qed

theorem written_files_have_fixed_names_witness:
  "{name. \<exists>c. disk (snd (write_project_files demo_config demo_world)) ([''work'', ''demo''] @ [name]) = Some (File c)} =
      {''setup.py'', ''redzer.spec'', ''redzer_installer.iss''} \<and>
   {name. disk (snd (write_project_files demo_config demo_world)) ([''work'', ''demo''] @ [''templates'', name]) \<noteq> None} =
      {''setup_template.py'', ''redzer_template.spec'', ''redzer_installer_template.iss''}"
proof -
  have wf: "wf_fs (disk demo_world)" by (simp add: demo_world_def wf_demo_disk)
  from demo_write_project_files obtain s' where run: "write_project_files demo_config demo_world =
          (Inr ([''work'', ''demo''], [''work'', ''demo'', ''venv''],
                [''work'', ''demo'', ''redzer.spec''], [''work'', ''demo'', ''redzer_installer.iss'']), s')"
    by blast
  from written_files_have_fixed_names[OF wf run] run show ?thesis by simp
qed


subsection \<open>C10: an existing configuration file is loaded as it is\<close>

text \<open>
  C10. For a configuration path that names an existing file (the string resolves to a
  file), \<open>load_config\<close> returns whatever the parser makes of the text, unvalidated, and
  never exits. So an empty file, which parses to \<^verbatim>\<open>None\<close>, passes the load step;
  \<open>initialize_project\<close> then fails at its first lookup, \<^verbatim>\<open>config['project_name']\<close>,
  before it has touched the world: with a \<^verbatim>\<open>TypeError\<close> for \<^verbatim>\<open>None\<close> (it cannot be
  subscripted) and a \<^verbatim>\<open>KeyError\<close> for an empty mapping. Neither is the fatal exit.
\<close>

theorem existing_config_is_loaded_unvalidated:
  assumes "stat (disk s) config_file = Inr (File content)"
  shows "(\<forall>config. safe_load (universal_newlines content) = Some config \<longrightarrow>
            load_config safe_load config_file s = (Inr config, s)) \<and>
         (\<forall>c s'. load_config safe_load config_file s \<noteq> (Inl (SystemExit c), s')) \<and>
         initialize_project sh YNull s = (Inl TypeError, s) \<and>
         initialize_project sh (YMap []) s = (Inl (KeyError ''project_name''), s)"
proof (intro conjI allI impI)
  fix config assume "safe_load (universal_newlines content) = Some config"
  with assms show "load_config safe_load config_file s = (Inr config, s)"
    by (simp add: load_config_def os_path_exists_def open_name_def bind_io_def return_def)
next
  fix c s'
  from assms show "load_config safe_load config_file s \<noteq> (Inl (SystemExit c), s')"
    by (simp add: load_config_def os_path_exists_def open_name_def bind_io_def return_def raise_def
        split: option.splits)
next
  show "initialize_project sh YNull s = (Inl TypeError, s)"
    by (simp add: initialize_project_not_a_mapping)
next
  have "write_project_files (YMap []) s = (Inl (KeyError ''project_name''), s)"
    by (simp add: write_project_files_def subscript_def)
  then show "initialize_project sh (YMap []) s = (Inl (KeyError ''project_name''), s)"
    by (simp add: initialize_project_def bind_io_stop)
qed

theorem existing_config_is_loaded_unvalidated_witness:
  "stat (disk demo_world) ''empty.yaml'' = Inr (File []) \<and>
   load_config (\<lambda>text. if text = [] then Some YNull else None) ''empty.yaml'' demo_world
     = (Inr YNull, demo_world) \<and>
   initialize_project quiet_shell YNull demo_world = (Inl TypeError, demo_world)"
proof -
  have st: "stat (disk demo_world) ''empty.yaml'' = Inr (File [])"
    by (simp add: stat_def root_of_def demo_world_def demo_disk_def)
  from existing_config_is_loaded_unvalidated[OF st, of "\<lambda>text. if text = [] then Some YNull else None" quiet_shell]
  show ?thesis using st by simp
qed

section \<open>Further properties\<close>

subsection \<open>A run that returns has issued the five commands, in order\<close>

text \<open>
  A run of \<open>initialize_project\<close> that returns has made exactly five calls of
  \<^verbatim>\<open>subprocess.run\<close>, in this order: the creation of the virtual environment, the
  installation of the requirements, the installation of PyInstaller, the build with
  PyInstaller on \<^verbatim>\<open>redzer.spec\<close>, and the compilation of the installer with ISCC. The
  first and the last run in the environment of the script, the other three in a copy
  with \<^verbatim>\<open>VIRTUAL_ENV\<close> set and the \<^verbatim>\<open>Scripts\<close> directory put in front of \<^verbatim>\<open>PATH\<close>.
\<close>

theorem five_commands_in_order:
  assumes "initialize_project sh config s = (Inr (), s')"
  shows "\<exists>name dir venv req old.
     subscript config ''project_name'' = Inr (YStr name) \<and>
     subscript config ''project_dir'' = Inr (YStr dir) \<and>
     subscript config ''venv_dir'' = Inr (YStr venv) \<and>
     subscript config ''requirements_file'' = Inr (YStr req) \<and>
     environ s ''PATH'' = Some old \<and>
     (let project_dir = joinpath (Path dir) name;
          venv_dir = joinpath project_dir venv;
          scripts = joinpath venv_dir ''Scripts'';
          env = (environ s)(''VIRTUAL_ENV'' \<mapsto> str_path venv_dir,
                            ''PATH'' \<mapsto> str_path scripts @ '';'' @ old)
      in calls s' = calls s @
           [(''python -m venv '' @ str_path venv_dir, None),
            (str_path (joinpath scripts ''activate'') @ '' && '' @
               str_path (joinpath scripts ''pip'') @ '' install -r '' @
               str_path (joinpath project_dir req), Some env),
            (str_path (joinpath scripts ''activate'') @ '' && '' @
               str_path (joinpath scripts ''pip'') @ '' install pyinstaller'', Some env),
            (str_path (joinpath scripts ''pyinstaller'') @ '' '' @
               str_path (joinpath project_dir ''redzer.spec''), Some env),
            (''ISCC '' @ str_path (joinpath project_dir ''redzer_installer.iss''), None)])"
  using assms by (rule initialize_project_Inr)

theorem five_commands_in_order_witness:
  "map fst (calls (snd (initialize_project quiet_shell demo_config demo_world))) =
     [''python -m venv work/demo/venv'',
      ''work/demo/venv/Scripts/activate && work/demo/venv/Scripts/pip install -r work/demo/requirements.txt'',
      ''work/demo/venv/Scripts/activate && work/demo/venv/Scripts/pip install pyinstaller'',
      ''work/demo/venv/Scripts/pyinstaller work/demo/redzer.spec'',
      ''ISCC work/demo/redzer_installer.iss'']"
proof -
  from demo_write_project_files obtain s1 where files: "write_project_files demo_config demo_world =
          (Inr ([''work'', ''demo''], [''work'', ''demo'', ''venv''],
                [''work'', ''demo'', ''redzer.spec''], [''work'', ''demo'', ''redzer_installer.iss'']), s1)"
    by blast
  from keeps_write_project_files files have k: "environ s1 = environ demo_world"
    by (auto simp: keeps_processes_def)
  have req: "subscript demo_config ''requirements_file'' = Inr (YStr ''requirements.txt'')"
    by (simp add: demo_config_def subscript_def)
  have path: "environ s1 ''PATH'' = Some ''/usr/bin''"
    by (simp add: k demo_world_def)
  from run_build_commands_total[OF quiet_shell_decodes req path] obtain s' where
    "run_build_commands quiet_shell demo_config ([''work'', ''demo''], [''work'', ''demo'', ''venv''],
                [''work'', ''demo'', ''redzer.spec''], [''work'', ''demo'', ''redzer_installer.iss'']) s1 = (Inr (), s')"
    by blast
  with files have run: "initialize_project quiet_shell demo_config demo_world = (Inr (), s')"
    by (simp add: initialize_project_def bind_io_def)
  from five_commands_in_order[OF run] obtain name dir venv req old where
    look: "subscript demo_config ''project_name'' = Inr (YStr name)"
      "subscript demo_config ''project_dir'' = Inr (YStr dir)"
      "subscript demo_config ''venv_dir'' = Inr (YStr venv)"
      "subscript demo_config ''requirements_file'' = Inr (YStr req)"
    and c: "calls s' = calls demo_world @
           [(''python -m venv '' @ str_path (joinpath (joinpath (Path dir) name) venv), None),
            (str_path (joinpath (joinpath (joinpath (joinpath (Path dir) name) venv) ''Scripts'') ''activate'') @ '' && '' @
               str_path (joinpath (joinpath (joinpath (joinpath (Path dir) name) venv) ''Scripts'') ''pip'') @ '' install -r '' @
               str_path (joinpath (joinpath (Path dir) name) req),
             Some ((environ demo_world)(''VIRTUAL_ENV'' \<mapsto> str_path (joinpath (joinpath (Path dir) name) venv),
                            ''PATH'' \<mapsto> str_path (joinpath (joinpath (joinpath (Path dir) name) venv) ''Scripts'') @ '';'' @ old))),
            (str_path (joinpath (joinpath (joinpath (joinpath (Path dir) name) venv) ''Scripts'') ''activate'') @ '' && '' @
               str_path (joinpath (joinpath (joinpath (joinpath (Path dir) name) venv) ''Scripts'') ''pip'') @ '' install pyinstaller'',
             Some ((environ demo_world)(''VIRTUAL_ENV'' \<mapsto> str_path (joinpath (joinpath (Path dir) name) venv),
                            ''PATH'' \<mapsto> str_path (joinpath (joinpath (joinpath (Path dir) name) venv) ''Scripts'') @ '';'' @ old))),
            (str_path (joinpath (joinpath (joinpath (joinpath (Path dir) name) venv) ''Scripts'') ''pyinstaller'') @ '' '' @
               str_path (joinpath (joinpath (Path dir) name) ''redzer.spec''),
             Some ((environ demo_world)(''VIRTUAL_ENV'' \<mapsto> str_path (joinpath (joinpath (Path dir) name) venv),
                            ''PATH'' \<mapsto> str_path (joinpath (joinpath (joinpath (Path dir) name) venv) ''Scripts'') @ '';'' @ old))),
            (''ISCC '' @ str_path (joinpath (joinpath (Path dir) name) ''redzer_installer.iss''), None)]"
    unfolding Let_def by blast
  from look have v: "name = ''demo''" "dir = ''work''" "venv = ''venv''" "req = ''requirements.txt''"
    by (simp_all add: demo_config_def subscript_def)
  have p: "joinpath [''work'', ''demo''] ''venv'' = [''work'', ''demo'', ''venv'']"
    "joinpath [''work'', ''demo''] ''requirements.txt'' = [''work'', ''demo'', ''requirements.txt'']"
    "joinpath (Path ''work'') ''demo'' = [''work'', ''demo'']"
    by (simp_all add: joinpath_def Path_def root_of_def is_absolute_def)
  have s: "str_path [''work'', ''demo'', ''venv''] = ''work/demo/venv''"
    "str_path [''work'', ''demo'', ''venv'', ''Scripts'', ''activate''] = ''work/demo/venv/Scripts/activate''"
    "str_path [''work'', ''demo'', ''venv'', ''Scripts'', ''pip''] = ''work/demo/venv/Scripts/pip''"
    "str_path [''work'', ''demo'', ''venv'', ''Scripts'', ''pyinstaller''] = ''work/demo/venv/Scripts/pyinstaller''"
    "str_path [''work'', ''demo'', ''requirements.txt''] = ''work/demo/requirements.txt''"
    "str_path [''work'', ''demo'', ''redzer.spec''] = ''work/demo/redzer.spec''"
    "str_path [''work'', ''demo'', ''redzer_installer.iss''] = ''work/demo/redzer_installer.iss''"
    by (simp_all add: str_path_def is_absolute_def)
  from c have "map fst (calls s') = map fst (calls demo_world) @
     [''python -m venv work/demo/venv'',
      ''work/demo/venv/Scripts/activate && work/demo/venv/Scripts/pip install -r work/demo/requirements.txt'',
      ''work/demo/venv/Scripts/activate && work/demo/venv/Scripts/pip install pyinstaller'',
      ''work/demo/venv/Scripts/pyinstaller work/demo/redzer.spec'',
      ''ISCC work/demo/redzer_installer.iss'']"
    by (simp add: v p s)
  with run show ?thesis by (simp add: demo_world_def)
qed

subsection \<open>Each command runs in the world the one before it has left\<close>

text \<open>
  \<^verbatim>\<open>subprocess.run\<close> returns when the child has exited. So when the five commands of
  \<open>initialize_project\<close> (lines 205 to 225) have all returned, the second child has run on
  the disk the first one left, and so on; the disk at the end is the one the fifth
  child left.
\<close>

lemma each_command_runs_after_the_one_before:
  assumes "run_build_commands sh config (pd, vd, sp, ip) s = (Inr u, s')"
  shows "\<exists>req old r1 r2 r3 r4 r5 d1 d2 d3 d4.
     subscript config ''requirements_file'' = Inr (YStr req) \<and> environ s ''PATH'' = Some old \<and>
     (let env = (environ s)(''VIRTUAL_ENV'' \<mapsto> str_path vd,
                            ''PATH'' \<mapsto> str_path (vd @ [''Scripts'']) @ '';'' @ old)
      in sh (''python -m venv '' @ str_path vd) (environ s) (disk s) = (r1, d1) \<and>
         sh (str_path (vd @ [''Scripts'', ''activate'']) @ '' && '' @
             str_path (vd @ [''Scripts'', ''pip'']) @ '' install -r '' @ str_path (joinpath pd req))
            env d1 = (r2, d2) \<and>
         sh (str_path (vd @ [''Scripts'', ''activate'']) @ '' && '' @
             str_path (vd @ [''Scripts'', ''pip'']) @ '' install pyinstaller'')
            env d2 = (r3, d3) \<and>
         sh (str_path (vd @ [''Scripts'', ''pyinstaller'']) @ '' '' @ str_path sp) env d3 = (r4, d4) \<and>
         sh (''ISCC '' @ str_path ip) (environ s) d4 = (r5, disk s'))"
  using assms
  apply (clarsimp simp: run_build_commands_def Let_def bind_io_Inr_iff truediv_Inr
      split: option.splits)
  apply (auto dest!: run_command_Inr_world simp: logging_info_def)
  done

subsection \<open>With decodable output, a failing command never stops the workflow\<close>

text \<open>
  What does hold of failing commands. Let the file-writing steps have returned, let the configuration hold a
  \<^verbatim>\<open>requirements_file\<close> string and the environment a \<^verbatim>\<open>PATH\<close>, and let every child print
  well-formed UTF-8 on the stream that is decoded. Then \<open>initialize_project\<close> returns
  and has issued all five commands, whatever the return codes of the children were.
\<close>

theorem failed_commands_do_not_stop_the_workflow:
  assumes "\<forall>c e d. output_decodes (fst (sh c e d))"
    and "write_project_files config s = (Inr paths, s1)"
    and "subscript config ''requirements_file'' = Inr (YStr req)"
    and "environ s ''PATH'' = Some old"
  shows "\<exists>s'. initialize_project sh config s = (Inr (), s') \<and>
              length (calls s') = length (calls s) + 5"
proof -
  from keeps_write_project_files assms(2) have k: "environ s1 = environ s"
    by (auto simp: keeps_processes_def)
  obtain pd vd sp ip where p: "paths = (pd, vd, sp, ip)" by (cases paths)
  from run_build_commands_total[OF assms(1,3), of s1 old pd vd sp ip] k assms(4)
  obtain s' where "run_build_commands sh config (pd, vd, sp, ip) s1 = (Inr (), s')" by auto
  with assms(2) p have run: "initialize_project sh config s = (Inr (), s')"
    by (simp add: initialize_project_def bind_io_def)
  from initialize_project_Inr[OF run] have "length (calls s') = length (calls s) + 5"
    by (auto simp: Let_def)
  with run show ?thesis by blast
qed

theorem failed_commands_do_not_stop_the_workflow_witness:
  "\<exists>s'. initialize_project (\<lambda>c e d. (\<lparr>returncode = 1, stdout = [], stderr = ''no such tool''\<rparr>, d))
          demo_config demo_world = (Inr (), s') \<and> length (calls s') = 5"
proof -
  have dec: "\<forall>c e d. output_decodes (fst ((\<lambda>c e d. (\<lparr>returncode = 1, stdout = [], stderr = ''no such tool''\<rparr>, d)) c e d))"
    by (simp add: output_decodes_def)
  from demo_write_project_files obtain s1 where files: "write_project_files demo_config demo_world =
          (Inr ([''work'', ''demo''], [''work'', ''demo'', ''venv''],
                [''work'', ''demo'', ''redzer.spec''], [''work'', ''demo'', ''redzer_installer.iss'']), s1)"
    by blast
  have req: "subscript demo_config ''requirements_file'' = Inr (YStr ''requirements.txt'')"
    by (simp add: demo_config_def subscript_def)
  have path: "environ demo_world ''PATH'' = Some ''/usr/bin''"
    by (simp add: demo_world_def)
  from failed_commands_do_not_stop_the_workflow[OF dec files req path] show ?thesis
    by (simp add: demo_world_def)
qed

subsection \<open>No run issues more than five commands\<close>

text \<open>
  Whatever the outcome of \<open>initialize_project\<close>, an exception included, it has made at
  most five calls of \<^verbatim>\<open>subprocess.run\<close>.
\<close>

theorem no_run_issues_more_than_five_commands:
  assumes "initialize_project sh config s = (r, s')"
  shows "\<exists>cs. calls s' = calls s @ cs \<and> length cs \<le> 5"
proof (cases "write_project_files config s")
  case (Pair r1 s1)
  from keeps_write_project_files Pair have k: "calls s1 = calls s"
    by (auto simp: keeps_processes_def)
  show ?thesis
  proof (cases r1)
    case (Inl e)
    with Pair assms k show ?thesis by (simp add: initialize_project_def bind_io_def)
  next
    case (Inr paths)
    with Pair assms have "run_build_commands sh config paths s1 = (r, s')"
      by (simp add: initialize_project_def bind_io_def)
    from run_build_commands_at_most_five[OF this] k show ?thesis by simp
  qed
qed

subsection \<open>The environment must hold \<^verbatim>\<open>PATH\<close>\<close>

text \<open>
  The script reads \<^verbatim>\<open>env["PATH"]\<close> after the first command. In an environment without
  \<^verbatim>\<open>PATH\<close> that is a \<^verbatim>\<open>KeyError\<close>, and the four remaining commands are not issued, even
  though every child succeeds.
\<close>

theorem without_PATH_only_the_first_command_is_issued:
  "fst (initialize_project quiet_shell demo_config (demo_world\<lparr>environ := Map.empty\<rparr>)) =
     Inl (KeyError ''PATH'') \<and>
   map fst (calls (snd (initialize_project quiet_shell demo_config (demo_world\<lparr>environ := Map.empty\<rparr>)))) =
     [''python -m venv work/demo/venv'']"
proof -
  let ?w = "demo_world\<lparr>environ := Map.empty\<rparr>"
  have "disk ?w = demo_disk" by (simp add: demo_world_def)
  from demo_disk_write_project_files[OF this] obtain s1 where files: "write_project_files demo_config ?w =
          (Inr ([''work'', ''demo''], [''work'', ''demo'', ''venv''],
                [''work'', ''demo'', ''redzer.spec''], [''work'', ''demo'', ''redzer_installer.iss'']), s1)"
    by blast
  from keeps_write_project_files files have k: "calls s1 = []" "environ s1 = Map.empty"
    by (auto simp: keeps_processes_def demo_world_def)
  from run_command_total[OF quiet_shell_decodes] obtain s2 where
    r1: "run_command quiet_shell (''python -m venv '' @ str_path [''work'', ''demo'', ''venv'']) None s1 = (Inr (), s2)"
    by blast
  from run_command_result[OF r1] k have k2: "environ s2 = Map.empty"
    "calls s2 = [(''python -m venv '' @ str_path [''work'', ''demo'', ''venv''], None)]" by simp_all
  have req: "subscript demo_config ''requirements_file'' = Inr (YStr ''requirements.txt'')"
    by (simp add: demo_config_def subscript_def)
  have "initialize_project quiet_shell demo_config ?w = (Inl (KeyError ''PATH''), s2)"
    using files r1 req k2
    by (simp add: initialize_project_def run_build_commands_def bind_io_def Let_def lift_def
        truediv_def return_def)
  with k2 show ?thesis
    by (simp add: str_path_def is_absolute_def)
qed

subsection \<open>A directory as the configuration file\<close>

text \<open>
  A path that names a directory exists, so \<open>load_config\<close> does not take its exit: it
  goes on to \<^verbatim>\<open>open\<close>, which raises \<^verbatim>\<open>IsADirectoryError\<close>. Nothing is logged and the
  world is as it was.
\<close>

lemma a_directory_is_not_a_missing_file:
  assumes "stat (disk s) config_file = Inr Dir"
  shows "load_config safe_load config_file s = (Inl (IsADirectoryError (Path config_file)), s)"
  using assms by (simp add: load_config_def os_path_exists_def open_name_def bind_io_def)

end
